theory Spec2Isabelle
  imports Complex_Main "HOL-Library.Sublist"
begin

section \<open>JavaScript values and strings\<close>

text \<open>
  The routes and the interview page exchange JSON. A JSON value is modelled as a datatype;
  \<open>undefined\<close> is \<open>None\<close> of \<open>json option\<close>. Numbers are exact rationals (the tests the
  code makes on numbers are truthiness and sign). Strings are lists of code units; the
  8-bit \<open>char\<close> covers the code units below 256. Objects keep their members in order, each
  key once.
\<close>

datatype json =
    JNull
  | JBool bool
  | JNumber rat
  | JString string
  | JArray "json list"
  | JObject "(string \<times> json) list"

text \<open>\<open>ToBoolean\<close>: the truthiness test behind \<open>!x\<close>, \<open>if (x)\<close> and \<open>x || y\<close>.\<close>

fun truthy :: "json \<Rightarrow> bool" where
  "truthy JNull = False"
| "truthy (JBool b) = b"
| "truthy (JNumber n) = (n \<noteq> 0)"
| "truthy (JString s) = (s \<noteq> [])"
| "truthy (JArray xs) = True"
| "truthy (JObject kvs) = True"

fun ToBoolean :: "json option \<Rightarrow> bool" where
  "ToBoolean None = False"
| "ToBoolean (Some v) = truthy v"

text \<open>\<open>v?.k\<close> for a key \<open>k\<close> that no built-in prototype defines.\<close>

fun optional_get :: "json option \<Rightarrow> string \<Rightarrow> json option" where
  "optional_get (Some (JObject kvs)) k = map_of kvs k"
| "optional_get v k = None"

text \<open>
  \<open>String.prototype.trim\<close> removes white space and line terminators at both ends; below
  code unit 256 these are TAB, LF, VT, FF, CR, SP and NBSP.
\<close>

definition isWhiteSpace :: "char \<Rightarrow> bool" where
  "isWhiteSpace c \<longleftrightarrow>
     c \<in> set [CHR 0x09, CHR 0x0A, CHR 0x0B, CHR 0x0C, CHR 0x0D, CHR 0x20, CHR 0xA0]"

definition trim :: "string \<Rightarrow> string" where
  "trim s = rev (dropWhile isWhiteSpace (rev (dropWhile isWhiteSpace s)))"

definition startsWith :: "string \<Rightarrow> char \<Rightarrow> bool" where
  "startsWith s c = (case s of [] \<Rightarrow> False | x # xs \<Rightarrow> x = c)"

text \<open>\<open>indexOf\<close> and \<open>lastIndexOf\<close> of one character; \<open>None\<close> is the result \<open>-1\<close>.\<close>

fun indexOf :: "string \<Rightarrow> char \<Rightarrow> nat option" where
  "indexOf [] c = None"
| "indexOf (x # xs) c = (if x = c then Some 0 else map_option Suc (indexOf xs c))"

definition lastIndexOf :: "string \<Rightarrow> char \<Rightarrow> nat option" where
  "lastIndexOf s c = map_option (\<lambda>i. length s - 1 - i) (indexOf (rev s) c)"

text \<open>\<open>s.slice(a, b)\<close> for indices \<open>0 \<le> a\<close> and \<open>0 \<le> b\<close>.\<close>

definition slice :: "string \<Rightarrow> nat \<Rightarrow> nat \<Rightarrow> string" where
  "slice s a b = take (b - a) (drop a s)"

section \<open>JSON.parse\<close>

text \<open>
  \<open>JSON.parse\<close> is a built-in of the platform. The routes take it as a parameter
  \<open>JSON_parse :: string \<Rightarrow> string + json\<close>, where \<open>Inl m\<close> is the thrown \<open>SyntaxError\<close>
  with message \<open>m\<close>, so that what is proved about a route holds for every parser. For
  concrete runs, \<open>JSON_parse_ecma\<close> below is a recursive-descent parser of the JSON
  grammar (RFC 8259 as ECMA-262 applies it): white space, the three literals, numbers
  with fraction and exponent, strings with escapes, arrays and objects, a later duplicate
  key replacing the earlier value. A \<open>\\u\<close> escape above code unit 255 is outside the
  8-bit model and is rejected.
\<close>

definition json_ws :: "char \<Rightarrow> bool" where
  "json_ws c \<longleftrightarrow> c \<in> set [CHR 0x20, CHR 0x09, CHR 0x0A, CHR 0x0D]"

definition skip_ws :: "string \<Rightarrow> string" where
  "skip_ws s = dropWhile json_ws s"

definition is_digit :: "char \<Rightarrow> bool" where
  "is_digit c \<longleftrightarrow> c \<in> set ''0123456789''"

definition hex_val :: "char \<Rightarrow> nat option" where
  "hex_val c = map_of (zip ''0123456789abcdefABCDEF''
      [0, 1, 2, 3, 4, 5, 6, 7, 8, 9, 10, 11, 12, 13, 14, 15, 10, 11, 12, 13, 14, 15]) c"

definition digits_val :: "string \<Rightarrow> nat" where
  "digits_val ds = foldl (\<lambda>n c. 10 * n + (case hex_val c of None \<Rightarrow> 0 | Some d \<Rightarrow> d)) 0 ds"

definition control_char :: "char \<Rightarrow> bool" where
  "control_char c \<longleftrightarrow> \<not> digit5 c \<and> \<not> digit6 c \<and> \<not> digit7 c"

definition unescape :: "char \<Rightarrow> char option" where
  "unescape e = map_of
     [(CHR 0x22, CHR 0x22), (CHR 0x5C, CHR 0x5C), (CHR ''/'', CHR ''/''),
      (CHR ''b'', CHR 0x08), (CHR ''f'', CHR 0x0C), (CHR ''n'', CHR 0x0A),
      (CHR ''r'', CHR 0x0D), (CHR ''t'', CHR 0x09)] e"

definition unescape_u :: "char \<Rightarrow> char \<Rightarrow> char \<Rightarrow> char \<Rightarrow> char option" where
  "unescape_u a b c d =
     (case (hex_val a, hex_val b, hex_val c, hex_val d) of
        (Some 0, Some 0, Some h, Some l) \<Rightarrow> Some (char_of (16 * h + l))
      | _ \<Rightarrow> None)"

text \<open>The characters of a string literal after its opening quote, up to the closing one.\<close>

fun parse_chars :: "string \<Rightarrow> string \<Rightarrow> (string \<times> string) option" where
  "parse_chars acc [] = None"
| "parse_chars acc [c] = (if c = CHR 0x22 then Some (rev acc, []) else None)"
| "parse_chars acc (c # e # r) =
     (if c = CHR 0x22 then Some (rev acc, e # r)
      else if c = CHR 0x5C then
        (if e = CHR ''u'' then
           (case r of
              a # b # h # l # r' \<Rightarrow>
                (case unescape_u a b h l of
                   None \<Rightarrow> None
                 | Some x \<Rightarrow> parse_chars (x # acc) r')
            | _ \<Rightarrow> None)
         else
           (case unescape e of
              None \<Rightarrow> None
            | Some x \<Rightarrow> parse_chars (x # acc) r))
      else if control_char c then None
      else parse_chars (c # acc) (e # r))"

text \<open>A number: \<open>-? (0 | [1-9][0-9]*) (. [0-9]+)? ([eE] [+-]? [0-9]+)?\<close>.\<close>

definition parse_number :: "string \<Rightarrow> (json \<times> string) option" where
  "parse_number s =
     (let neg = startsWith s CHR ''-'';
          s1 = (if neg then tl s else s);
          ip = takeWhile is_digit s1;
          s2 = dropWhile is_digit s1;
          frac = startsWith s2 CHR ''.'';
          fp = (if frac then takeWhile is_digit (tl s2) else []);
          s3 = (if frac then dropWhile is_digit (tl s2) else s2);
          ex = (startsWith s3 CHR ''e'' \<or> startsWith s3 CHR ''E'');
          s4 = (if ex then tl s3 else s3);
          eneg = (ex \<and> startsWith s4 CHR ''-'');
          s5 = (if ex \<and> (startsWith s4 CHR ''-'' \<or> startsWith s4 CHR ''+'') then tl s4 else s4);
          ep = (if ex then takeWhile is_digit s5 else []);
          s6 = (if ex then dropWhile is_digit s5 else s3);
          m = (of_nat (digits_val (ip @ fp)) :: rat) / 10 ^ length fp;
          v = (if eneg then m / 10 ^ digits_val ep else m * 10 ^ digits_val ep)
      in if ip = [] \<or> (1 < length ip \<and> startsWith ip CHR ''0'') \<or> (frac \<and> fp = [])
            \<or> (ex \<and> ep = [])
         then None
         else Some (JNumber (if neg then - v else v), s6))"

text \<open>\<open>put k v\<close>: assignment to a property, in place when the key is already there.\<close>

fun put :: "string \<Rightarrow> json \<Rightarrow> (string \<times> json) list \<Rightarrow> (string \<times> json) list" where
  "put k v [] = [(k, v)]"
| "put k v ((k', v') # kvs) = (if k' = k then (k, v) # kvs else (k', v') # put k v kvs)"

text \<open>
  The fuel bounds the number of nested calls; every call consumes input, so twice the
  length of the text is enough.
\<close>

fun parse_value :: "nat \<Rightarrow> string \<Rightarrow> (json \<times> string) option"
  and parse_elements :: "nat \<Rightarrow> json list \<Rightarrow> string \<Rightarrow> (json \<times> string) option"
  and parse_members :: "nat \<Rightarrow> (string \<times> json) list \<Rightarrow> string \<Rightarrow> (json \<times> string) option"
where
  "parse_value 0 s = None"
| "parse_value (Suc n) s =
     (case skip_ws s of
        [] \<Rightarrow> None
      | c # r \<Rightarrow>
          if c = CHR ''{'' then
            (if startsWith (skip_ws r) CHR ''}'' then Some (JObject [], tl (skip_ws r))
             else parse_members n [] r)
          else if c = CHR ''['' then
            (if startsWith (skip_ws r) CHR '']'' then Some (JArray [], tl (skip_ws r))
             else parse_elements n [] r)
          else if c = CHR 0x22 then
            map_option (\<lambda>(str, r'). (JString str, r')) (parse_chars [] r)
          else if take 4 (c # r) = ''true'' then Some (JBool True, drop 4 (c # r))
          else if take 5 (c # r) = ''false'' then Some (JBool False, drop 5 (c # r))
          else if take 4 (c # r) = ''null'' then Some (JNull, drop 4 (c # r))
          else parse_number (c # r))"
| "parse_elements 0 acc s = None"
| "parse_elements (Suc n) acc s =
     (case parse_value n s of
        None \<Rightarrow> None
      | Some (v, r) \<Rightarrow>
          (case skip_ws r of
             [] \<Rightarrow> None
           | c # r' \<Rightarrow>
               if c = CHR '','' then parse_elements n (v # acc) r'
               else if c = CHR '']'' then Some (JArray (rev (v # acc)), r')
               else None))"
| "parse_members 0 acc s = None"
| "parse_members (Suc n) acc s =
     (case skip_ws s of
        [] \<Rightarrow> None
      | q # r \<Rightarrow>
          if q \<noteq> CHR 0x22 then None
          else
            (case parse_chars [] r of
               None \<Rightarrow> None
             | Some (k, r1) \<Rightarrow>
                 if \<not> startsWith (skip_ws r1) CHR '':'' then None
                 else
                   (case parse_value n (tl (skip_ws r1)) of
                      None \<Rightarrow> None
                    | Some (v, r2) \<Rightarrow>
                        (case skip_ws r2 of
                           [] \<Rightarrow> None
                         | c # r3 \<Rightarrow>
                             if c = CHR '','' then parse_members n (put k v acc) r3
                             else if c = CHR ''}'' then Some (JObject (put k v acc), r3)
                             else None))))"

definition JSON_parse_ecma :: "string \<Rightarrow> string + json" where
  "JSON_parse_ecma s =
     (case parse_value (2 * length s + 2) s of
        None \<Rightarrow> Inl ''SyntaxError''
      | Some (v, r) \<Rightarrow> if skip_ws r = [] then Inr v else Inl ''SyntaxError'')"

section \<open>The generative model\<close>

text \<open>
  The output schema a route sends with its request (the \<open>description\<close> texts are left
  out). \<open>ARRAY items minItems maxItems\<close>; \<open>OBJECT properties required\<close>, where
  \<open>required = None\<close> is an object schema that has no \<open>required\<close> entry.
\<close>

datatype schema =
    STRING
  | NUMBER
  | ARRAY schema "nat option" "nat option"
  | OBJECT "(string \<times> schema) list" "string list option"

record Scenario =
  title :: string
  description :: string
  keyDecision :: string

datatype role = host | team

text \<open>
  A transcript entry as the interview page stores it. The page declares \<open>content\<close> a
  string; at run time the opening entry holds whatever value the opening-prompt route
  returned, so the field is a JSON value.
\<close>

record TranscriptEntry =
  role :: role
  content :: json
  timestamp :: nat

text \<open>
  The request sent to the model: the data the user prompt is built from (the prompt texts
  themselves are fixed templates around these values), and the generation configuration.
  \<open>responseSchema = Some s\<close> goes with \<open>responseMimeType: "application/json"\<close>.
\<close>

datatype prompt =
    ScenariosPrompt rat string
  | OpeningPrompt rat string Scenario
  | NextPrompt rat string Scenario "(role \<times> json) list"
  | AnalysisPrompt rat string "TranscriptEntry list"

record payload =
  userPrompt :: prompt
  temperature :: rat
  maxOutputTokens :: nat
  responseSchema :: "schema option"
  safetySettings :: bool

text \<open>The response of the model, as far as the routes read it.\<close>

datatype part = Part (part_text: "string option")
datatype content = Content (content_parts: "part list option")
datatype candidate = Candidate (candidate_content: "content option")
datatype GenerateContentResponse = GenerateContentResponse (candidates: "candidate list option")

text \<open>\<open>result.candidates?.[0]\<close>\<close>

definition first_candidate :: "GenerateContentResponse \<Rightarrow> candidate option" where
  "first_candidate result =
     (case candidates result of None \<Rightarrow> None | Some [] \<Rightarrow> None | Some (c # cs) \<Rightarrow> Some c)"

text \<open>\<open>candidate.content?.parts?.[0]?.text\<close>\<close>

definition candidate_text :: "candidate \<Rightarrow> string option" where
  "candidate_text c =
     (case candidate_content c of
        None \<Rightarrow> None
      | Some ct \<Rightarrow>
          (case content_parts ct of
             None \<Rightarrow> None
           | Some [] \<Rightarrow> None
           | Some (p # ps) \<Rightarrow> part_text p))"

text \<open>
  The outcome of a \<open>fetch\<close>: it rejects (\<open>FetchFailed\<close>, with the message of the error),
  or it resolves to a response with a status, a status text, the body as text
  (\<open>response.text()\<close>) and the body as parsed by \<open>response.json()\<close>, \<open>Inl m\<close> when that
  throws a \<open>SyntaxError\<close> with message \<open>m\<close>.
\<close>

datatype 'a fetched =
    FetchFailed string
  | Fetched nat string string "string + 'a"

definition ok :: "nat \<Rightarrow> bool" where
  "ok st \<longleftrightarrow> 200 \<le> st \<and> st \<le> 299"

text \<open>\<open>NextResponse.json(body, {status})\<close>\<close>

datatype response = NextResponse (resp_status: nat) (resp_body: json)

definition error_body :: "string \<Rightarrow> json" where
  "error_body msg = JObject [(''error'', JString msg)]"

definition error_details :: "string \<Rightarrow> string \<Rightarrow> json" where
  "error_details msg details = JObject [(''error'', JString msg), (''details'', JString details)]"

section \<open>Route \<open>/api/gen\<close>: scenario generation\<close>

definition gen_responseSchema :: schema where
  "gen_responseSchema =
     ARRAY (OBJECT [(''title'', STRING), (''description'', STRING), (''keyDecision'', STRING)]
              (Some [''title'', ''description'', ''keyDecision'']))
       (Some 10) (Some 10)"

definition gen_payload :: "rat \<Rightarrow> string \<Rightarrow> payload" where
  "gen_payload teamSize domain =
     \<lparr>userPrompt = ScenariosPrompt teamSize domain, temperature = 8 / 10,
      maxOutputTokens = 8192, responseSchema = Some gen_responseSchema,
      safetySettings = True\<rparr>"

text \<open>
  \<open>request.json()\<close> reads the text of the body of the request and parses it as JSON.
\<close>

definition request_json :: "(string \<Rightarrow> string + json) \<Rightarrow> string \<Rightarrow> string + json" where
  "request_json JSON_parse bodyText = JSON_parse bodyText"

text \<open>
  The handler gets the outcome of \<open>await request.json()\<close>: \<open>Inl m\<close> when the body of the
  request is not JSON (a \<open>SyntaxError\<close>, thrown inside the \<open>try\<close> and answered by the
  \<open>catch\<close>), \<open>Inr b\<close> when it is the JSON value \<open>b\<close>. The destructuring
  \<open>const { teamSize, domain } = ...\<close> throws a \<open>TypeError\<close> on \<open>null\<close>, which ends in the
  last line of the handler; on any other value a property that is not there is
  \<open>undefined\<close>.

  The route returns its response and the list of the requests it sent to the model. A
  rejected \<open>fetch\<close> is not a \<open>SyntaxError\<close> and ends in the last line of the handler;
  so does the \<open>RangeError\<close> of a response built with a status outside 200 to 599, when
  the route passes on the status of the model's answer.
\<close>

definition gen_POST ::
  "(string \<Rightarrow> string + json) \<Rightarrow> (payload \<Rightarrow> GenerateContentResponse fetched) \<Rightarrow>
     string + json \<Rightarrow> response \<times> payload list" where
  "gen_POST JSON_parse fetch body =
     (case body of
        Inl m \<Rightarrow> (NextResponse 500 (error_body ''Failed to parse AI response as JSON.''), [])
      | Inr b \<Rightarrow>
     if b = JNull then (NextResponse 500 (error_body ''Internal server error''), [])
     else
     (case optional_get (Some b) ''teamSize'' of
        Some (JNumber n) \<Rightarrow>
          if \<not> truthy (JNumber n) \<or> n \<le> 0 then
            (NextResponse 400
               (error_body ''Invalid 'teamSize' provided. Must be a positive number.''), [])
          else
            (case optional_get (Some b) ''domain'' of
               Some (JString d) \<Rightarrow>
                 if \<not> truthy (JString d) \<or> trim d = [] then
                   (NextResponse 400
                      (error_body ''Invalid 'domain' provided. Must be a non-empty string.''), [])
                 else
                   (let p = gen_payload n d in
                    case fetch p of
                      FetchFailed m \<Rightarrow>
                        (NextResponse 500 (error_body ''Internal server error''), [p])
                    | Fetched st statusText errorBody js \<Rightarrow>
                        if \<not> ok st then
                          (if 200 \<le> st \<and> st \<le> 599 then
                             NextResponse st
                               (error_details (''Gemini API error: '' @ statusText) errorBody)
                           else NextResponse 500 (error_body ''Internal server error''), [p])
                        else
                          (case js of
                             Inl m \<Rightarrow>
                               (NextResponse 500
                                  (error_body ''Failed to parse AI response as JSON.''), [p])
                           | Inr result \<Rightarrow>
                               (case first_candidate result of
                                  None \<Rightarrow>
                                    (NextResponse 500
                                       (error_body ''Invalid response structure from AI model''), [p])
                                | Some cand \<Rightarrow>
                                    (case candidate_text cand of
                                       None \<Rightarrow>
                                         (NextResponse 500
                                            (error_body ''Invalid response structure from AI model''),
                                          [p])
                                     | Some scenariosJson \<Rightarrow>
                                         if scenariosJson = [] then
                                           (NextResponse 500
                                              (error_body ''Invalid response structure from AI model''),
                                            [p])
                                         else
                                           (case JSON_parse scenariosJson of
                                              Inl m \<Rightarrow>
                                                (NextResponse 500
                                                   (error_body ''Failed to parse AI response as JSON.''),
                                                 [p])
                                            | Inr scenarios \<Rightarrow>
                                                (NextResponse 200 scenarios, [p]))))))
             | _ \<Rightarrow>
                 (NextResponse 400
                    (error_body ''Invalid 'domain' provided. Must be a non-empty string.''), []))
      | _ \<Rightarrow>
          (NextResponse 400
             (error_body ''Invalid 'teamSize' provided. Must be a positive number.''), [])))"

section \<open>Route \<open>/api/makeinterview\<close>: the opening prompt\<close>

definition makeinterview_responseSchema :: schema where
  "makeinterview_responseSchema = OBJECT [(''openingPrompt'', STRING)] (Some [''openingPrompt''])"

definition makeinterview_payload :: "rat \<Rightarrow> string \<Rightarrow> Scenario \<Rightarrow> payload" where
  "makeinterview_payload teamSize domain scenario =
     \<lparr>userPrompt = OpeningPrompt teamSize domain scenario, temperature = 7 / 10,
      maxOutputTokens = 2048, responseSchema = Some makeinterview_responseSchema,
      safetySettings = True\<rparr>"

text \<open>
  The text handed to \<open>JSON.parse\<close>: the trimmed text, or, when the trimmed text does not
  start with an opening brace, its part from the first opening brace to the last closing
  brace, if there is such a part.
\<close>

definition jsonText :: "string \<Rightarrow> string" where
  "jsonText text =
     (let t = trim text in
      if \<not> startsWith t CHR ''{'' then
        (case (indexOf t CHR ''{'', lastIndexOf t CHR ''}'') of
           (Some firstBrace, Some lastBrace) \<Rightarrow>
             if lastBrace > firstBrace then slice t firstBrace (lastBrace + 1) else t
         | _ \<Rightarrow> t)
      else t)"

definition makeinterview_POST ::
  "(string \<Rightarrow> string + json) \<Rightarrow> (payload \<Rightarrow> GenerateContentResponse fetched) \<Rightarrow>
     rat option \<Rightarrow> string option \<Rightarrow> Scenario option \<Rightarrow> response \<times> payload list" where
  "makeinterview_POST JSON_parse fetch teamSize domain scenario =
     (case (teamSize, domain, scenario) of
        (Some n, Some d, Some sc) \<Rightarrow>
          if n = 0 \<or> d = [] \<or> title sc = [] \<or> description sc = [] \<or> keyDecision sc = [] then
            (NextResponse 400
               (error_body ''Invalid teamSize, domain, or scenario data provided''), [])
          else
            (let p = makeinterview_payload n d sc in
             case fetch p of
               FetchFailed m \<Rightarrow> (NextResponse 500 (error_body ''Internal server error''), [p])
             | Fetched st statusText errorBody js \<Rightarrow>
                 if \<not> ok st then
                   (if 200 \<le> st \<and> st \<le> 599 then
                      NextResponse st
                        (error_details (''Gemini API error: '' @ statusText) errorBody)
                    else NextResponse 500 (error_body ''Internal server error''), [p])
                 else
                   (case js of
                      Inl m \<Rightarrow>
                        (NextResponse 500
                           (error_body ''Failed to parse AI response as JSON.''), [p])
                    | Inr result \<Rightarrow>
                        (case first_candidate result of
                           None \<Rightarrow>
                             (NextResponse 500
                                (error_body ''Invalid response structure from AI model''), [p])
                         | Some cand \<Rightarrow>
                             (case candidate_text cand of
                                None \<Rightarrow>
                                  (NextResponse 500
                                     (error_body ''Invalid response structure from AI model''), [p])
                              | Some text \<Rightarrow>
                                  if text = [] \<or> length (trim text) = 0 then
                                    (NextResponse 500
                                       (error_body ''Invalid response structure from AI model''),
                                     [p])
                                  else
                                    (case JSON_parse (jsonText text) of
                                       Inl m \<Rightarrow>
                                         (NextResponse 500
                                            (error_body ''Failed to parse AI response as JSON.''),
                                          [p])
                                     | Inr parsed \<Rightarrow>
                                         (case optional_get (Some parsed) ''openingPrompt'' of
                                            None \<Rightarrow>
                                              (NextResponse 500
                                                 (error_body ''AI response missing openingPrompt''),
                                               [p])
                                          | Some openingPrompt \<Rightarrow>
                                              if \<not> truthy openingPrompt then
                                                (NextResponse 500
                                                   (error_body ''AI response missing openingPrompt''),
                                                 [p])
                                              else
                                                (NextResponse 200
                                                   (JObject [(''openingPrompt'', openingPrompt)]),
                                                 [p])))))))
      | _ \<Rightarrow>
          (NextResponse 400
             (error_body ''Invalid teamSize, domain, or scenario data provided''), []))"

section \<open>Route \<open>/api/next-prompt\<close>: the next host line\<close>

text \<open>
  The regular expression \<open>/^Host:/i\<close> matches the five characters at the start of the
  text, ignoring case: a character matches when its upper-case form is that of the
  pattern's (no character from 128 on has an upper-case form below 128).
\<close>

definition canonicalize :: "char \<Rightarrow> char" where
  "canonicalize c =
     (case map_of (zip ''abcdefghijklmnopqrstuvwxyz'' ''ABCDEFGHIJKLMNOPQRSTUVWXYZ'') c of
        Some u \<Rightarrow> u
      | None \<Rightarrow> c)"

definition matches_Host :: "string \<Rightarrow> bool" where
  "matches_Host s \<longleftrightarrow> map canonicalize (take 5 s) = ''HOST:''"

text \<open>\<open>.replace(/^Host:/i, "")\<close>\<close>

definition replace_Host :: "string \<Rightarrow> string" where
  "replace_Host s = (if matches_Host s then drop 5 s else s)"

text \<open>\<open>.replace(/"/g, "")\<close>\<close>

definition replace_quotes :: "string \<Rightarrow> string" where
  "replace_quotes s = filter (\<lambda>c. c \<noteq> CHR 0x22) s"

definition cleanedPrompt :: "string \<Rightarrow> string" where
  "cleanedPrompt nextPrompt = trim (replace_quotes (replace_Host nextPrompt))"

text \<open>
  The cleaning as the specification words it: a leading \<open>Host:\<close> label is removed, then
  the quote characters that surround the text, and white space at both ends; what lies
  between is kept.
\<close>

definition strip_surrounding_quotes :: "string \<Rightarrow> string" where
  "strip_surrounding_quotes s =
     rev (dropWhile (\<lambda>c. c = CHR 0x22) (rev (dropWhile (\<lambda>c. c = CHR 0x22) s)))"

definition cleanedPrompt_spec :: "string \<Rightarrow> string" where
  "cleanedPrompt_spec raw = trim (strip_surrounding_quotes (trim (replace_Host raw)))"

text \<open>
  This route calls the model through the SDK (\<open>model.generateContent\<close>), which returns
  the response or throws an error with a message (\<open>Inl\<close>). The generation configuration
  also fixes \<open>topK = 1\<close> and \<open>topP = 1\<close>; no schema is sent.
\<close>

definition next_prompt_payload ::
  "rat \<Rightarrow> string \<Rightarrow> Scenario \<Rightarrow> (role \<times> json) list \<Rightarrow> payload" where
  "next_prompt_payload teamSize domain scenario transcript =
     \<lparr>userPrompt = NextPrompt teamSize domain scenario transcript, temperature = 8 / 10,
      maxOutputTokens = 1024, responseSchema = None, safetySettings = True\<rparr>"

definition next_prompt_POST ::
  "(payload \<Rightarrow> string + GenerateContentResponse) \<Rightarrow>
     rat \<Rightarrow> string \<Rightarrow> Scenario option \<Rightarrow> (role \<times> json) list option \<Rightarrow>
     response \<times> payload list" where
  "next_prompt_POST generateContent teamSize domain scenario transcript =
     (case transcript of
        None \<Rightarrow> (NextResponse 400 (error_body ''Transcript is empty''), [])
      | Some tr \<Rightarrow>
          if length tr = 0 then (NextResponse 400 (error_body ''Transcript is empty''), [])
          else
            (case scenario of
               None \<Rightarrow> (NextResponse 400 (error_body ''No scenario provided''), [])
             | Some sc \<Rightarrow>
                 (let p = next_prompt_payload teamSize domain sc tr in
                  case generateContent p of
                    Inl errorMessage \<Rightarrow>
                      (NextResponse 500 (error_details ''Internal server error'' errorMessage), [p])
                  | Inr result \<Rightarrow>
                      (case (case first_candidate result of
                               None \<Rightarrow> None
                             | Some cand \<Rightarrow> candidate_text cand) of
                         None \<Rightarrow>
                           (NextResponse 500
                              (error_details ''Internal server error''
                                 ''AI did not return a valid response.''), [p])
                       | Some nextPrompt \<Rightarrow>
                           if nextPrompt = [] then
                             (NextResponse 500
                                (error_details ''Internal server error''
                                   ''AI did not return a valid response.''), [p])
                           else
                             (NextResponse 200
                                (JObject [(''nextPrompt'', JString (cleanedPrompt nextPrompt))]),
                              [p])))))"

section \<open>The document store and route \<open>/api/analyze-interview\<close>\<close>

text \<open>
  A document of the collection \<open>simulations\<close>, with the fields the interview page writes.
  The route reads \<open>transcript\<close> and \<open>analysis\<close> as fields that may be absent. The store
  maps document ids to documents.
\<close>

record SimulationDoc =
  teamSize :: rat
  domain :: string
  scenario :: Scenario
  status :: string
  createdAt :: nat
  transcript :: "TranscriptEntry list option"
  analysis :: "json option"

type_synonym firestore = "string \<Rightarrow> SimulationDoc option"

text \<open>
  \<open>updateDoc\<close> rejects (\<open>None\<close>) when the document does not exist. The store itself
  is taken to be reachable and to accept every value written.
\<close>

definition updateDoc ::
  "firestore \<Rightarrow> string \<Rightarrow> (SimulationDoc \<Rightarrow> SimulationDoc) \<Rightarrow> firestore option" where
  "updateDoc db docId f =
     (case db docId of None \<Rightarrow> None | Some d \<Rightarrow> Some (db(docId \<mapsto> f d)))"

definition heatmapData_schema :: schema where
  "heatmapData_schema =
     OBJECT [(''Decisiveness'', NUMBER), (''Ethical Focus'', NUMBER), (''Data-Driven'', NUMBER),
             (''Long-Term Thinking'', NUMBER), (''Bias for Action'', NUMBER),
             (''Collaboration'', NUMBER)] None"

definition analyze_responseSchema :: schema where
  "analyze_responseSchema =
     OBJECT [(''overallScore'', NUMBER), (''keyStrengths'', ARRAY STRING None None),
             (''growthAreas'', ARRAY STRING None None), (''actionableFeedback'', STRING),
             (''heatmapData'', heatmapData_schema)]
       (Some [''overallScore'', ''keyStrengths'', ''growthAreas'', ''actionableFeedback'',
              ''heatmapData''])"

definition properties :: "schema \<Rightarrow> (string \<times> schema) list" where
  "properties s = (case s of OBJECT ps r \<Rightarrow> ps | _ \<Rightarrow> [])"

definition required :: "schema \<Rightarrow> string list" where
  "required s = (case s of OBJECT ps (Some r) \<Rightarrow> r | _ \<Rightarrow> [])"

definition analyze_payload :: "rat \<Rightarrow> string \<Rightarrow> TranscriptEntry list \<Rightarrow> payload" where
  "analyze_payload ts dm tr =
     \<lparr>userPrompt = AnalysisPrompt ts dm tr, temperature = 5 / 10, maxOutputTokens = 8192,
      responseSchema = Some analyze_responseSchema, safetySettings = False\<rparr>"

text \<open>
  The route returns its response, the store after it, and the requests it sent to the
  model. Every error thrown inside the handler is caught and answered with status 500
  and the error's message. The document that \<open>updateDoc\<close> writes has just been read,
  so the branch in which it rejects is never taken.
\<close>

definition analyze_interview_POST ::
  "(string \<Rightarrow> string + json) \<Rightarrow> (payload \<Rightarrow> GenerateContentResponse fetched) \<Rightarrow>
     firestore \<Rightarrow> string option \<Rightarrow> response \<times> firestore \<times> payload list" where
  "analyze_interview_POST JSON_parse fetch db docId =
     (case docId of
        None \<Rightarrow> (NextResponse 400 (error_body ''No document ID provided''), db, [])
      | Some i \<Rightarrow>
          if i = [] then (NextResponse 400 (error_body ''No document ID provided''), db, [])
          else
            (case db i of
               None \<Rightarrow> (NextResponse 404 (error_body ''Simulation not found''), db, [])
             | Some simData \<Rightarrow>
                 (case transcript simData of
                    None \<Rightarrow>
                      (NextResponse 400 (error_body ''Transcript is too short to analyze''), db, [])
                  | Some tr \<Rightarrow>
                      if length tr < 2 then
                        (NextResponse 400 (error_body ''Transcript is too short to analyze''),
                         db, [])
                      else if ToBoolean (analysis simData) then
                        (NextResponse 200 (the (analysis simData)), db, [])
                      else
                        (let p = analyze_payload (teamSize simData) (domain simData) tr in
                         case fetch p of
                           FetchFailed m \<Rightarrow> (NextResponse 500 (error_body m), db, [p])
                         | Fetched st statusText bodyText js \<Rightarrow>
                             if \<not> ok st then
                               (NextResponse 500
                                  (error_body (''Gemini API error: '' @ statusText)), db, [p])
                             else
                               (case js of
                                  Inl m \<Rightarrow> (NextResponse 500 (error_body m), db, [p])
                                | Inr result \<Rightarrow>
                                    (case (case first_candidate result of
                                             None \<Rightarrow> None
                                           | Some cand \<Rightarrow> candidate_text cand) of
                                       None \<Rightarrow>
                                         (NextResponse 500
                                            (error_body ''Invalid response structure from AI model''),
                                          db, [p])
                                     | Some analysisJson \<Rightarrow>
                                         if analysisJson = [] then
                                           (NextResponse 500
                                              (error_body
                                                 ''Invalid response structure from AI model''),
                                            db, [p])
                                         else
                                           (case JSON_parse analysisJson of
                                              Inl m \<Rightarrow> (NextResponse 500 (error_body m), db, [p])
                                            | Inr a \<Rightarrow>
                                                (case updateDoc db i
                                                        (\<lambda>d. d\<lparr>analysis := Some a,
                                                                 status := ''analyzed''\<rparr>) of
                                                   None \<Rightarrow>
                                                     (NextResponse 500
                                                        (error_body ''No document to update''),
                                                      db, [p])
                                                 | Some db' \<Rightarrow>
                                                     (NextResponse 200 a, db', [p])))))))))"

section \<open>The interview page\<close>

text \<open>
  What a handler of the page catches and shows as its error: an \<open>Error\<close> constructed from
  a value, the \<open>SyntaxError\<close> of \<open>res.json()\<close>, a rejected \<open>fetch\<close>, a property read on
  \<open>null\<close>, or a rejected store operation.
\<close>

datatype thrown =
    Error json
  | SyntaxError string
  | FetchError string
  | NullRead
  | FirebaseError

text \<open>
  The state of the component \<open>InterviewContent\<close>: its \<open>useState\<close> variables (\<open>scenario\<close>,
  \<open>teamSize\<close>, \<open>domain\<close> and \<open>transcript\<close> carry the suffix \<open>_state\<close>, the store's
  document has fields of the same names) and the ref \<open>initHasRun\<close>.
\<close>

record InterviewContent =
  scenario_state :: "Scenario option"
  teamSize_state :: rat
  domain_state :: string
  loading :: bool
  error :: "thrown option"
  userResponse :: string
  simulationDocId :: "string option"
  transcript_state :: "TranscriptEntry list"
  initHasRun :: bool

definition initial_state :: InterviewContent where
  "initial_state =
     \<lparr>scenario_state = None, teamSize_state = 0, domain_state = [], loading = True,
      error = None, userResponse = [], simulationDocId = None, transcript_state = [],
      initHasRun = False\<rparr>"

text \<open>\<open>a || d\<close> with a default \<open>d\<close> that is truthy.\<close>

definition or_default :: "json option \<Rightarrow> json \<Rightarrow> json" where
  "or_default a d = (case a of None \<Rightarrow> d | Some v \<Rightarrow> if truthy v then v else d)"

text \<open>\<open>catch (err) { setError(err.message) } finally { setLoading(false) }\<close>\<close>

definition caught :: "thrown \<Rightarrow> InterviewContent \<Rightarrow> InterviewContent" where
  "caught e st = st\<lparr>error := Some e, loading := False\<rparr>"

text \<open>
  The effect that runs when the page is mounted. Its environment: the decoding of the
  \<open>scenario\<close> query parameter (base64, then \<open>JSON.parse\<close>; \<open>Inl\<close> when it throws),
  \<open>parseInt\<close>, the id that \<open>addDoc\<close> gives the new document, the two readings of
  \<open>Timestamp.now()\<close>, the \<open>fetch\<close> of \<open>/api/makeinterview\<close>, and the three query
  parameters.
\<close>

definition initializeInterview ::
  "(string \<Rightarrow> thrown + Scenario) \<Rightarrow> (string \<Rightarrow> rat) \<Rightarrow> string \<Rightarrow> nat \<Rightarrow> nat \<Rightarrow>
     (rat \<Rightarrow> string \<Rightarrow> Scenario \<Rightarrow> json fetched) \<Rightarrow>
     string option \<Rightarrow> string option \<Rightarrow> string option \<Rightarrow>
     InterviewContent \<times> firestore \<Rightarrow> InterviewContent \<times> firestore" where
  "initializeInterview decodeScenario parseInt newId createdNow hostNow fetch
       encodedScenario teamSizeParam domainParam w =
     (let (st, db) = w in
      if initHasRun st then w
      else
        (let st0 = st\<lparr>initHasRun := True, loading := True, error := None\<rparr> in
         case (encodedScenario, teamSizeParam, domainParam) of
           (Some es, Some tp, Some dp) \<Rightarrow>
             if es = [] \<or> tp = [] \<or> dp = [] then
               (caught (Error (JString ''Missing simulation data. Please go back.'')) st0, db)
             else
               (case decodeScenario es of
                  Inl e \<Rightarrow> (caught e st0, db)
                | Inr parsedScenario \<Rightarrow>
                    (let parsedTeamSize = parseInt tp;
                         st1 = st0\<lparr>scenario_state := Some parsedScenario,
                                   teamSize_state := parsedTeamSize, domain_state := dp\<rparr>;
                         docData = \<lparr>teamSize = parsedTeamSize, domain = dp,
                                    scenario = parsedScenario, status = ''pending'',
                                    createdAt = createdNow, transcript = Some [],
                                    analysis = None\<rparr>;
                         db1 = db(newId \<mapsto> docData);
                         st2 = st1\<lparr>simulationDocId := Some newId\<rparr>
                     in case fetch parsedTeamSize dp parsedScenario of
                          FetchFailed m \<Rightarrow> (caught (FetchError m) st2, db1)
                        | Fetched stt statusText bodyText js \<Rightarrow>
                            (case js of
                               Inl m \<Rightarrow> (caught (SyntaxError m) st2, db1)
                             | Inr data \<Rightarrow>
                                 if \<not> ok stt then
                                   (caught (Error (or_default (optional_get (Some data) ''error'')
                                                     (JString ''Failed to start simulation.''))) st2,
                                    db1)
                                 else if data = JNull then (caught NullRead st2, db1)
                                 else
                                   (case optional_get (Some data) ''openingPrompt'' of
                                      None \<Rightarrow> (caught FirebaseError st2, db1)
                                    | Some openingPrompt \<Rightarrow>
                                        (let hostEntry = \<lparr>role = host, content = openingPrompt,
                                                          timestamp = hostNow\<rparr>
                                         in case updateDoc db1 newId
                                                   (\<lambda>d. d\<lparr>transcript := Some [hostEntry]\<rparr>) of
                                              None \<Rightarrow> (caught FirebaseError st2, db1)
                                            | Some db2 \<Rightarrow>
                                                (st2\<lparr>transcript_state := [hostEntry],
                                                     loading := False\<rparr>, db2))))))
         | _ \<Rightarrow> (caught (Error (JString ''Missing simulation data. Please go back.'')) st0, db)))"

text \<open>
  The submit handler. Its environment: the two readings of \<open>Timestamp.now()\<close> (for the
  team's entry and for the host's) and the \<open>fetch\<close> of \<open>/api/next-prompt\<close>, which gets
  the transcript without its timestamps.
\<close>

definition handleSubmitResponse ::
  "nat \<Rightarrow> nat \<Rightarrow>
     (rat \<Rightarrow> string \<Rightarrow> Scenario option \<Rightarrow> (role \<times> json) list \<Rightarrow> json fetched) \<Rightarrow>
     InterviewContent \<times> firestore \<Rightarrow> InterviewContent \<times> firestore" where
  "handleSubmitResponse teamNow hostNow fetch w =
     (let (st, db) = w in
      if trim (userResponse st) = [] then w
      else
        (case simulationDocId st of
           None \<Rightarrow> w
         | Some docId \<Rightarrow>
             (let st0 = st\<lparr>loading := True, error := None\<rparr>;
                  teamEntry = \<lparr>role = team, content = JString (userResponse st),
                               timestamp = teamNow\<rparr>;
                  newTranscript = transcript_state st @ [teamEntry];
                  st1 = st0\<lparr>transcript_state := newTranscript\<rparr>
              in case updateDoc db docId (\<lambda>d. d\<lparr>transcript := Some newTranscript\<rparr>) of
                   None \<Rightarrow> (caught FirebaseError st1, db)
                 | Some db1 \<Rightarrow>
                     (let st2 = st1\<lparr>userResponse := []\<rparr> in
                      case fetch (teamSize_state st) (domain_state st) (scenario_state st)
                             (map (\<lambda>t. (role t, content t)) newTranscript) of
                        FetchFailed m \<Rightarrow> (caught (FetchError m) st2, db1)
                      | Fetched stt statusText bodyText js \<Rightarrow>
                          (case js of
                             Inl m \<Rightarrow> (caught (SyntaxError m) st2, db1)
                           | Inr data \<Rightarrow>
                               if \<not> ok stt then
                                 (caught (Error (or_default (optional_get (Some data) ''error'')
                                                  (or_default (optional_get (Some data) ''details'')
                                                     (JString ''Failed to get next prompt'')))) st2,
                                  db1)
                               else
                                 (case optional_get (Some data) ''nextPrompt'' of
                                    Some (JString nextPrompt) \<Rightarrow>
                                      if nextPrompt = [] then
                                        (caught (Error (JString ''Invalid response from host API''))
                                           st2, db1)
                                      else
                                        (let hostEntry = \<lparr>role = host,
                                                          content = JString nextPrompt,
                                                          timestamp = hostNow\<rparr>;
                                             finalTranscript = newTranscript @ [hostEntry];
                                             st3 = st2\<lparr>transcript_state := finalTranscript\<rparr>
                                         in case updateDoc db1 docId
                                                   (\<lambda>d. d\<lparr>transcript := Some finalTranscript\<rparr>) of
                                              None \<Rightarrow> (caught FirebaseError st3, db1)
                                            | Some db2 \<Rightarrow> (st3\<lparr>loading := False\<rparr>, db2))
                                  | _ \<Rightarrow>
                                      (caught (Error (JString ''Invalid response from host API''))
                                         st2, db1)))))))"

text \<open>The finish handler; the navigation to the analysis page that follows is not part of the state.\<close>

definition handleFinishSimulation ::
  "InterviewContent \<times> firestore \<Rightarrow> InterviewContent \<times> firestore" where
  "handleFinishSimulation w =
     (let (st, db) = w in
      case simulationDocId st of
        None \<Rightarrow> w
      | Some docId \<Rightarrow>
          (let st0 = st\<lparr>loading := True, error := None\<rparr> in
           case updateDoc db docId (\<lambda>d. d\<lparr>status := ''completed''\<rparr>) of
             None \<Rightarrow> (caught FirebaseError st0, db)
           | Some db1 \<Rightarrow> (st0, db1)))"

text \<open>The answer of a route as the page's \<open>fetch\<close> receives it.\<close>

definition over_http :: "response \<Rightarrow> json fetched" where
  "over_http r = Fetched (resp_status r) [] [] (Inr (resp_body r))"

section \<open>Runs of one simulation\<close>

text \<open>
  The operations on the page and the store: mounting the page (start), typing into the
  response box, submitting, finishing, and a request to the analysis route.
\<close>

datatype op =
    Start "string \<Rightarrow> thrown + Scenario" "string \<Rightarrow> rat" string nat nat
      "rat \<Rightarrow> string \<Rightarrow> Scenario \<Rightarrow> json fetched" "string option" "string option" "string option"
  | Type string
  | SubmitTeamResponse nat nat "rat \<Rightarrow> string \<Rightarrow> Scenario option \<Rightarrow> (role \<times> json) list \<Rightarrow> json fetched"
  | Finish
  | Analyze "string \<Rightarrow> string + json" "payload \<Rightarrow> GenerateContentResponse fetched" "string option"

fun step :: "op \<Rightarrow> InterviewContent \<times> firestore \<Rightarrow> InterviewContent \<times> firestore" where
  "step (Start decodeScenario parseInt newId createdNow hostNow fetch es tp dp) w =
     initializeInterview decodeScenario parseInt newId createdNow hostNow fetch es tp dp w"
| "step (Type v) w = ((fst w)\<lparr>userResponse := v\<rparr>, snd w)"
| "step (SubmitTeamResponse teamNow hostNow fetch) w = handleSubmitResponse teamNow hostNow fetch w"
| "step Finish w = handleFinishSimulation w"
| "step (Analyze JSON_parse fetch docId) w =
     (fst w, fst (snd (analyze_interview_POST JSON_parse fetch (snd w) docId)))"

fun run :: "op list \<Rightarrow> InterviewContent \<times> firestore \<Rightarrow> InterviewContent \<times> firestore" where
  "run [] w = w"
| "run (x # xs) w = run xs (step x w)"

text \<open>\<open>addDoc\<close> gives the new document an id that no document of the store has.\<close>

fun fresh :: "op \<Rightarrow> InterviewContent \<times> firestore \<Rightarrow> bool" where
  "fresh (Start decodeScenario parseInt newId createdNow hostNow fetch es tp dp) w =
     (snd w newId = None)"
| "fresh x w = True"

fun fresh_run :: "op list \<Rightarrow> InterviewContent \<times> firestore \<Rightarrow> bool" where
  "fresh_run [] w = True"
| "fresh_run (x # xs) w = (fresh x w \<and> fresh_run xs (step x w))"

text \<open>
  The page and the store agree when the stored transcript of the page's document is an
  initial part of the transcript the page holds.
\<close>

definition in_sync :: "InterviewContent \<times> firestore \<Rightarrow> bool" where
  "in_sync w =
     (case simulationDocId (fst w) of
        None \<Rightarrow> True
      | Some docId \<Rightarrow>
          (case snd w docId of
             None \<Rightarrow> False
           | Some d \<Rightarrow>
               (case transcript d of
                  None \<Rightarrow> False
                | Some tr \<Rightarrow> prefix tr (transcript_state (fst w)))))"

text \<open>The stored transcript of a document.\<close>

definition stored_transcript :: "firestore \<Rightarrow> string \<Rightarrow> TranscriptEntry list option" where
  "stored_transcript db docId = (case db docId of None \<Rightarrow> None | Some d \<Rightarrow> transcript d)"

text \<open>
  The host line that the submit handler accepts from the answer of \<open>/api/next-prompt\<close>:
  the answer must arrive, be JSON, have a 2xx status and carry a non-empty string
  \<open>nextPrompt\<close>. In every other case the handler throws.
\<close>

definition accepted_host_line :: "json fetched \<Rightarrow> string option" where
  "accepted_host_line r =
     (case r of
        FetchFailed m \<Rightarrow> None
      | Fetched stt statusText bodyText js \<Rightarrow>
          (case js of
             Inl m \<Rightarrow> None
           | Inr data \<Rightarrow>
               if \<not> ok stt then None
               else
                 (case optional_get (Some data) ''nextPrompt'' of
                    Some (JString nextPrompt) \<Rightarrow> if nextPrompt = [] then None else Some nextPrompt
                  | _ \<Rightarrow> None)))"

text \<open>The page's two requests, served by the routes.\<close>

definition next_prompt_api ::
  "(payload \<Rightarrow> string + GenerateContentResponse) \<Rightarrow>
     rat \<Rightarrow> string \<Rightarrow> Scenario option \<Rightarrow> (role \<times> json) list \<Rightarrow> json fetched" where
  "next_prompt_api generateContent ts dm sc tr =
     over_http (fst (next_prompt_POST generateContent ts dm sc (Some tr)))"

definition makeinterview_api ::
  "(string \<Rightarrow> string + json) \<Rightarrow> (payload \<Rightarrow> GenerateContentResponse fetched) \<Rightarrow>
     rat \<Rightarrow> string \<Rightarrow> Scenario \<Rightarrow> json fetched" where
  "makeinterview_api JSON_parse fetch ts dm sc =
     over_http (fst (makeinterview_POST JSON_parse fetch (Some ts) (Some dm) (Some sc)))"

section \<open>Concrete data for the runs below\<close>

definition breach :: Scenario where
  "breach = \<lparr>title = ''The Data Breach Dilemma'',
             description = ''Patient records were exposed.'',
             keyDecision = ''Go public now, or wait?''\<rparr>"

definition opening_entry :: TranscriptEntry where
  "opening_entry = \<lparr>role = host, content = JString ''Your team has found a breach. What now?'',
              timestamp = 1\<rparr>"

definition team_entry :: TranscriptEntry where
  "team_entry = \<lparr>role = team, content = JString ''We will notify regulators immediately.'',
             timestamp = 2\<rparr>"

definition sim_doc :: "TranscriptEntry list \<Rightarrow> json option \<Rightarrow> SimulationDoc" where
  "sim_doc tr a =
     \<lparr>teamSize = 4, domain = ''Healthcare'', scenario = breach, status = ''pending'',
      createdAt = 0, transcript = Some tr, analysis = a\<rparr>"

definition no_docs :: firestore where
  "no_docs = (\<lambda>i. None)"

definition one_doc :: "SimulationDoc \<Rightarrow> firestore" where
  "one_doc d = no_docs(''sim1'' \<mapsto> d)"

text \<open>The body of a request to \<open>/api/gen\<close> with the two fields.\<close>

definition gen_body :: "json \<Rightarrow> json \<Rightarrow> string + json" where
  "gen_body ts dm = Inr (JObject [(''teamSize'', ts), (''domain'', dm)])"

text \<open>A model that answers with status 200 and one candidate holding the given text.\<close>

definition says :: "string \<Rightarrow> GenerateContentResponse" where
  "says t = GenerateContentResponse (Some [Candidate (Some (Content (Some [Part (Some t)])))])"

definition gemini_says :: "string \<Rightarrow> payload \<Rightarrow> GenerateContentResponse fetched" where
  "gemini_says t p = Fetched 200 ''OK'' [] (Inr (says t))"

definition gemini_down :: "payload \<Rightarrow> GenerateContentResponse fetched" where
  "gemini_down p = FetchFailed ''fetch failed''"

definition sdk_says :: "string \<Rightarrow> payload \<Rightarrow> string + GenerateContentResponse" where
  "sdk_says t p = Inr (says t)"

definition sdk_throws :: "payload \<Rightarrow> string + GenerateContentResponse" where
  "sdk_throws p = Inl ''503 Service Unavailable''"

text \<open>A page whose start has succeeded: one host entry, shown and stored.\<close>

definition started :: InterviewContent where
  "started = initial_state\<lparr>scenario_state := Some breach, teamSize_state := 4,
               domain_state := ''Healthcare'', loading := False,
               simulationDocId := Some ''sim1'', transcript_state := [opening_entry],
               initHasRun := True\<rparr>"

text \<open>The same page after the team has typed its response.\<close>

definition answering :: InterviewContent where
  "answering = started\<lparr>userResponse := ''We will notify regulators immediately.''\<rparr>"

text \<open>
  The environment of a start: a query parameter that decodes to the given scenario,
  \<open>parseInt\<close> on a string of decimal digits, and the opening prompt served by the route.
\<close>

definition decodes_to :: "Scenario \<Rightarrow> string \<Rightarrow> thrown + Scenario" where
  "decodes_to sc encoded = Inr sc"

definition parseInt_digits :: "string \<Rightarrow> rat" where
  "parseInt_digits s = of_nat (digits_val (takeWhile is_digit s))"

section \<open>Facts about the string functions\<close>

lemma trim_decomp:
  "\<exists>pre post. s = pre @ trim s @ post \<and> (\<forall>c\<in>set pre. isWhiteSpace c) \<and> (\<forall>c\<in>set post. isWhiteSpace c)"
proof -
  define u where "u = dropWhile isWhiteSpace s"
  define v where "v = takeWhile isWhiteSpace (rev u)"
  have s: "s = takeWhile isWhiteSpace s @ u"
    by (simp add: u_def)
  have "u = rev (v @ dropWhile isWhiteSpace (rev u))"
    unfolding v_def by (simp only: takeWhile_dropWhile_id rev_rev_ident)
  also have "\<dots> = rev (dropWhile isWhiteSpace (rev u)) @ rev v"
    by (rule rev_append)
  finally have u: "u = trim s @ rev v"
    by (simp add: trim_def u_def)
  have a: "\<forall>c\<in>set (takeWhile isWhiteSpace s). isWhiteSpace c"
    by (meson set_takeWhileD)
  have b: "\<forall>c\<in>set (rev v). isWhiteSpace c"
    unfolding v_def by (metis set_rev set_takeWhileD)
  from s u have "s = takeWhile isWhiteSpace s @ trim s @ rev v"
    by simp
  with a b show ?thesis by blast
qed

lemma trim_subseq: "subseq (trim s) s"
proof -
  obtain pre post where "s = pre @ trim s @ post"
    using trim_decomp by blast
  then show ?thesis
    by (metis subseq_order.order_refl list_emb_append2 list_emb_prefix)
qed

lemma set_trim: "set (trim s) \<subseteq> set s"
  using trim_decomp [of s] by (metis Un_iff set_append subsetI)

lemma trim_last: "trim s \<noteq> [] \<Longrightarrow> \<not> isWhiteSpace (last (trim s))"
  by (simp add: trim_def last_rev hd_dropWhile)

lemma trim_hd:
  assumes ne: "trim s \<noteq> []"
  shows "\<not> isWhiteSpace (hd (trim s))"
proof -
  define u where "u = dropWhile isWhiteSpace s"
  have t: "trim s = rev (dropWhile isWhiteSpace (rev u))"
    by (simp add: trim_def u_def)
  with ne have une: "u \<noteq> []" by auto
  then have hu: "\<not> isWhiteSpace (hd u)"
    unfolding u_def by (rule hd_dropWhile)
  have "hd u \<in> set (rev u)" using une by simp
  then have "last (dropWhile isWhiteSpace (rev u)) = last (rev u)"
    using hu by (rule dropWhile_last)
  then have "hd (trim s) = hd u"
    using une ne t by (simp add: hd_rev last_rev)
  with hu show ?thesis by simp
qed

lemma cleanedPrompt_no_quote: "CHR 0x22 \<notin> set (cleanedPrompt raw)"
  using set_trim [of "replace_quotes (replace_Host raw)"]
  by (auto simp: cleanedPrompt_def replace_quotes_def)

lemma replace_Host_subseq: "subseq (replace_Host s) s"
  by (simp add: replace_Host_def suffix_drop suffix_imp_sublist sublist_imp_subseq)

lemma cleanedPrompt_subseq: "subseq (cleanedPrompt raw) raw"
  unfolding cleanedPrompt_def replace_quotes_def
  by (meson trim_subseq subseq_filter_left replace_Host_subseq subseq_order.order_trans)

lemma trim_Nil: "trim [] = []"
  by (simp add: trim_def)

lemma canonicalize_letter:
  assumes "x \<in> set ''abcdefghijklmnopqrstuvwxyz''"
  shows "(canonicalize x = CHR ''H'' \<longleftrightarrow> x = CHR ''h'')
         \<and> (canonicalize x = CHR ''O'' \<longleftrightarrow> x = CHR ''o'')
         \<and> (canonicalize x = CHR ''S'' \<longleftrightarrow> x = CHR ''s'')
         \<and> (canonicalize x = CHR ''T'' \<longleftrightarrow> x = CHR ''t'')
         \<and> canonicalize x \<noteq> CHR '':''"
proof -
  from assms have
    "x = CHR ''a'' \<or> x = CHR ''b'' \<or> x = CHR ''c'' \<or> x = CHR ''d'' \<or> x = CHR ''e''
     \<or> x = CHR ''f'' \<or> x = CHR ''g'' \<or> x = CHR ''h'' \<or> x = CHR ''i'' \<or> x = CHR ''j''
     \<or> x = CHR ''k'' \<or> x = CHR ''l'' \<or> x = CHR ''m'' \<or> x = CHR ''n'' \<or> x = CHR ''o''
     \<or> x = CHR ''p'' \<or> x = CHR ''q'' \<or> x = CHR ''r'' \<or> x = CHR ''s'' \<or> x = CHR ''t''
     \<or> x = CHR ''u'' \<or> x = CHR ''v'' \<or> x = CHR ''w'' \<or> x = CHR ''x'' \<or> x = CHR ''y''
     \<or> x = CHR ''z''"
    by simp
  then show ?thesis
    by (elim disjE) (simp_all add: canonicalize_def)
qed

lemma canonicalize_other:
  assumes "x \<notin> set ''abcdefghijklmnopqrstuvwxyz''"
  shows "canonicalize x = x"
proof -
  have "length ''abcdefghijklmnopqrstuvwxyz'' = length ''ABCDEFGHIJKLMNOPQRSTUVWXYZ''"
    by simp
  from map_of_zip_is_None [OF this] assms
  have "map_of (zip ''abcdefghijklmnopqrstuvwxyz'' ''ABCDEFGHIJKLMNOPQRSTUVWXYZ'') x = None"
    by blast
  then show ?thesis
    by (simp only: canonicalize_def option.case)
qed

lemma canonicalize_label:
  "canonicalize x = CHR ''H'' \<longleftrightarrow> x = CHR ''H'' \<or> x = CHR ''h''"
  "canonicalize x = CHR ''O'' \<longleftrightarrow> x = CHR ''O'' \<or> x = CHR ''o''"
  "canonicalize x = CHR ''S'' \<longleftrightarrow> x = CHR ''S'' \<or> x = CHR ''s''"
  "canonicalize x = CHR ''T'' \<longleftrightarrow> x = CHR ''T'' \<or> x = CHR ''t''"
  "canonicalize x = CHR '':'' \<longleftrightarrow> x = CHR '':''"
proof -
  have "(canonicalize x = CHR ''H'' \<longleftrightarrow> x = CHR ''H'' \<or> x = CHR ''h'')
      \<and> (canonicalize x = CHR ''O'' \<longleftrightarrow> x = CHR ''O'' \<or> x = CHR ''o'')
      \<and> (canonicalize x = CHR ''S'' \<longleftrightarrow> x = CHR ''S'' \<or> x = CHR ''s'')
      \<and> (canonicalize x = CHR ''T'' \<longleftrightarrow> x = CHR ''T'' \<or> x = CHR ''t'')
      \<and> (canonicalize x = CHR '':'' \<longleftrightarrow> x = CHR '':'')"
  proof (cases "x \<in> set ''abcdefghijklmnopqrstuvwxyz''")
    case True
    then have "x \<noteq> CHR ''H''" "x \<noteq> CHR ''O''" "x \<noteq> CHR ''S''" "x \<noteq> CHR ''T''" "x \<noteq> CHR '':''"
      by auto
    with canonicalize_letter [OF True] show ?thesis by simp
  next
    case False
    then have "x \<noteq> CHR ''h''" "x \<noteq> CHR ''o''" "x \<noteq> CHR ''s''" "x \<noteq> CHR ''t''"
      by auto
    with canonicalize_other [OF False] show ?thesis by simp
  qed
  then show "canonicalize x = CHR ''H'' \<longleftrightarrow> x = CHR ''H'' \<or> x = CHR ''h''"
    "canonicalize x = CHR ''O'' \<longleftrightarrow> x = CHR ''O'' \<or> x = CHR ''o''"
    "canonicalize x = CHR ''S'' \<longleftrightarrow> x = CHR ''S'' \<or> x = CHR ''s''"
    "canonicalize x = CHR ''T'' \<longleftrightarrow> x = CHR ''T'' \<or> x = CHR ''t''"
    "canonicalize x = CHR '':'' \<longleftrightarrow> x = CHR '':''"
    by simp_all
qed

lemma matches_Host_iff:
  "matches_Host raw \<longleftrightarrow>
     (\<exists>a b c d rest. raw = a # b # c # d # CHR '':'' # rest
        \<and> a \<in> {CHR ''H'', CHR ''h''} \<and> b \<in> {CHR ''O'', CHR ''o''}
        \<and> c \<in> {CHR ''S'', CHR ''s''} \<and> d \<in> {CHR ''T'', CHR ''t''})"
proof -
  have "matches_Host raw \<longleftrightarrow>
     (case raw of
        a # b # c # d # e # rest \<Rightarrow>
          (a = CHR ''H'' \<or> a = CHR ''h'') \<and> (b = CHR ''O'' \<or> b = CHR ''o'')
          \<and> (c = CHR ''S'' \<or> c = CHR ''s'') \<and> (d = CHR ''T'' \<or> d = CHR ''t'')
          \<and> e = CHR '':''
      | _ \<Rightarrow> False)"
    by (simp add: matches_Host_def canonicalize_label split: list.splits)
  then show ?thesis
    by (auto split: list.splits)
qed

lemma isWhiteSpace_iff:
  "isWhiteSpace c \<longleftrightarrow>
     c \<in> {CHR 0x09, CHR 0x0A, CHR 0x0B, CHR 0x0C, CHR 0x0D, CHR 0x20, CHR 0xA0}"
  by (simp add: isWhiteSpace_def)

section \<open>The cleaning of the host line\<close>

text \<open>
  Claim C7, as the code has it. Take the model's text; if it starts with the five
  characters of \<open>Host:\<close> in any letter case, drop them; then delete every double-quote
  character, wherever it stands. The cleaned host line is what is left of that string
  after white space has been removed at both ends: the string is white space, the
  cleaned line, white space, and the cleaned line neither starts nor ends with white
  space. Nothing else is deleted or changed, and the cleaned line holds no quote.
\<close>

theorem cleanedPrompt_removes_every_quote:
  "(\<exists>pre post.
      filter (\<lambda>c. c \<noteq> CHR 0x22)
        (if \<exists>a b c d rest. raw = a # b # c # d # CHR '':'' # rest
              \<and> a \<in> {CHR ''H'', CHR ''h''} \<and> b \<in> {CHR ''O'', CHR ''o''}
              \<and> c \<in> {CHR ''S'', CHR ''s''} \<and> d \<in> {CHR ''T'', CHR ''t''}
         then drop 5 raw else raw)
        = pre @ cleanedPrompt raw @ post
      \<and> set pre \<subseteq> {CHR 0x09, CHR 0x0A, CHR 0x0B, CHR 0x0C, CHR 0x0D, CHR 0x20, CHR 0xA0}
      \<and> set post \<subseteq> {CHR 0x09, CHR 0x0A, CHR 0x0B, CHR 0x0C, CHR 0x0D, CHR 0x20, CHR 0xA0})
   \<and> (cleanedPrompt raw \<noteq> [] \<longrightarrow>
        hd (cleanedPrompt raw) \<notin> {CHR 0x09, CHR 0x0A, CHR 0x0B, CHR 0x0C, CHR 0x0D, CHR 0x20, CHR 0xA0}
        \<and> last (cleanedPrompt raw) \<notin> {CHR 0x09, CHR 0x0A, CHR 0x0B, CHR 0x0C, CHR 0x0D, CHR 0x20, CHR 0xA0})
   \<and> CHR 0x22 \<notin> set (cleanedPrompt raw)
   \<and> subseq (cleanedPrompt raw) raw"
proof -
  define WS where "WS = {CHR 0x09, CHR 0x0A, CHR 0x0B, CHR 0x0C, CHR 0x0D, CHR 0x20, CHR 0xA0}"
  define s where "s = filter (\<lambda>c. c \<noteq> CHR 0x22)
        (if \<exists>a b c d rest. raw = a # b # c # d # CHR '':'' # rest
              \<and> a \<in> {CHR ''H'', CHR ''h''} \<and> b \<in> {CHR ''O'', CHR ''o''}
              \<and> c \<in> {CHR ''S'', CHR ''s''} \<and> d \<in> {CHR ''T'', CHR ''t''}
         then drop 5 raw else raw)"
  have ws: "isWhiteSpace c \<longleftrightarrow> c \<in> WS" for c
    unfolding WS_def by (rule isWhiteSpace_iff)
  have "replace_quotes (replace_Host raw) = s"
    unfolding s_def replace_quotes_def replace_Host_def
    by (simp only: matches_Host_iff)
  then have c: "cleanedPrompt raw = trim s"
    by (simp only: cleanedPrompt_def)
  from trim_decomp [of s] obtain pre post where
    d: "s = pre @ trim s @ post" and
    w: "\<forall>c\<in>set pre. isWhiteSpace c" "\<forall>c\<in>set post. isWhiteSpace c"
    by blast
  from w have w': "set pre \<subseteq> WS" "set post \<subseteq> WS"
    unfolding ws by blast+
  from d have "s = pre @ cleanedPrompt raw @ post"
    by (simp only: c)
  with w' have 1: "\<exists>pre post. s = pre @ cleanedPrompt raw @ post \<and> set pre \<subseteq> WS \<and> set post \<subseteq> WS"
    by (intro exI conjI)
  have 2: "cleanedPrompt raw \<noteq> [] \<longrightarrow>
        hd (cleanedPrompt raw) \<notin> WS \<and> last (cleanedPrompt raw) \<notin> WS"
  proof
    assume "cleanedPrompt raw \<noteq> []"
    then have "trim s \<noteq> []" unfolding c .
    from trim_hd [OF this] trim_last [OF this]
    show "hd (cleanedPrompt raw) \<notin> WS \<and> last (cleanedPrompt raw) \<notin> WS"
      unfolding ws c by (rule conjI)
  qed
  have 3: "CHR 0x22 \<notin> set (cleanedPrompt raw)" by (rule cleanedPrompt_no_quote)
  have 4: "subseq (cleanedPrompt raw) raw" by (rule cleanedPrompt_subseq)
  from 1 2 3 4 have "(\<exists>pre post. s = pre @ cleanedPrompt raw @ post \<and> set pre \<subseteq> WS \<and> set post \<subseteq> WS)
      \<and> (cleanedPrompt raw \<noteq> [] \<longrightarrow> hd (cleanedPrompt raw) \<notin> WS \<and> last (cleanedPrompt raw) \<notin> WS)
      \<and> CHR 0x22 \<notin> set (cleanedPrompt raw) \<and> subseq (cleanedPrompt raw) raw"
    by (intro conjI)
  then show ?thesis
    unfolding WS_def s_def .
qed

text \<open>The theorem at a text with a label in mixed case and quotes inside.\<close>

theorem cleanedPrompt_removes_every_quote_witness:
  \<open>cleanedPrompt ''hOsT: "Go" or "stay"? '' = ''Go or stay?''
   \<and> (\<exists>pre post. '' Go or stay? '' = pre @ ''Go or stay?'' @ post
        \<and> set pre \<subseteq> {CHR 0x09, CHR 0x0A, CHR 0x0B, CHR 0x0C, CHR 0x0D, CHR 0x20, CHR 0xA0}
        \<and> set post \<subseteq> {CHR 0x09, CHR 0x0A, CHR 0x0B, CHR 0x0C, CHR 0x0D, CHR 0x20, CHR 0xA0})
   \<and> hd ''Go or stay?'' \<notin> {CHR 0x09, CHR 0x0A, CHR 0x0B, CHR 0x0C, CHR 0x0D, CHR 0x20, CHR 0xA0}
   \<and> last ''Go or stay?'' \<notin> {CHR 0x09, CHR 0x0A, CHR 0x0B, CHR 0x0C, CHR 0x0D, CHR 0x20, CHR 0xA0}\<close>
proof -
  have c: \<open>cleanedPrompt ''hOsT: "Go" or "stay"? '' = ''Go or stay?''\<close>
    by code_simp
  have e: \<open>\<exists>a b c d rest. ''hOsT: "Go" or "stay"? '' = a # b # c # d # CHR '':'' # rest
              \<and> a \<in> {CHR ''H'', CHR ''h''} \<and> b \<in> {CHR ''O'', CHR ''o''}
              \<and> c \<in> {CHR ''S'', CHR ''s''} \<and> d \<in> {CHR ''T'', CHR ''t''}\<close>
    by simp
  have f: \<open>filter (\<lambda>c. c \<noteq> CHR 0x22) (drop 5 ''hOsT: "Go" or "stay"? '') = '' Go or stay? ''\<close>
    by simp
  have n: "''Go or stay?'' \<noteq> []" by simp
  from cleanedPrompt_removes_every_quote [of \<open>''hOsT: "Go" or "stay"? ''\<close>]
  have "(\<exists>pre post. '' Go or stay? '' = pre @ ''Go or stay?'' @ post
        \<and> set pre \<subseteq> {CHR 0x09, CHR 0x0A, CHR 0x0B, CHR 0x0C, CHR 0x0D, CHR 0x20, CHR 0xA0}
        \<and> set post \<subseteq> {CHR 0x09, CHR 0x0A, CHR 0x0B, CHR 0x0C, CHR 0x0D, CHR 0x20, CHR 0xA0})
   \<and> (''Go or stay?'' \<noteq> [] \<longrightarrow>
        hd ''Go or stay?'' \<notin> {CHR 0x09, CHR 0x0A, CHR 0x0B, CHR 0x0C, CHR 0x0D, CHR 0x20, CHR 0xA0}
        \<and> last ''Go or stay?'' \<notin> {CHR 0x09, CHR 0x0A, CHR 0x0B, CHR 0x0C, CHR 0x0D, CHR 0x20, CHR 0xA0})
   \<and> CHR 0x22 \<notin> set ''Go or stay?''
   \<and> subseq ''Go or stay?'' ''hOsT: \"Go\" or \"stay\"? ''"
    unfolding if_P [OF e] f c .
  with n c show ?thesis by blast
qed

text \<open>
  Claim C7 as stated says that only surrounding quotes go and nothing else is altered. On a
  text with quotes inside, the code removes them, where the cleaning of the claim keeps
  the text as it is.
\<close>

theorem cleanedPrompt_inner_quotes_counterexample:
  \<open>cleanedPrompt ''Say "yes" now'' = ''Say yes now''
   \<and> cleanedPrompt_spec ''Say "yes" now'' = ''Say "yes" now''
   \<and> cleanedPrompt ''Say "yes" now'' \<noteq> cleanedPrompt_spec ''Say "yes" now''\<close>
  by code_simp

section \<open>Scenario generation: validation\<close>

lemma request_bodies:
  \<open>request_json JSON_parse_ecma ''{"teamSize":0,"domain":"Healthcare"}''
     = Inr (JObject [(''teamSize'', JNumber 0), (''domain'', JString ''Healthcare'')])\<close>
  \<open>request_json JSON_parse_ecma ''{"teamSize":"4","domain":"Healthcare"}''
     = Inr (JObject [(''teamSize'', JString ''4''), (''domain'', JString ''Healthcare'')])\<close>
  \<open>request_json JSON_parse_ecma ''{"teamSize":4}'' = Inr (JObject [(''teamSize'', JNumber 4)])\<close>
  \<open>request_json JSON_parse_ecma ''{"teamSize":4,"domain":" "}''
     = Inr (JObject [(''teamSize'', JNumber 4), (''domain'', JString '' '')])\<close>
  \<open>request_json JSON_parse_ecma ''null'' = Inr JNull\<close>
  \<open>request_json JSON_parse_ecma ''teamSize=4'' = Inl ''SyntaxError''\<close>
  by code_simp+

lemma trim_blank: "trim '' '' = []"
  by code_simp

lemma gen_body_request:
  \<open>request_json JSON_parse_ecma ''{"teamSize":4,"domain":"Healthcare"}''
     = gen_body (JNumber 4) (JString ''Healthcare'')\<close>
  unfolding gen_body_def by code_simp

text \<open>
  Claim C6, as the code has it. When the body of the request is a JSON value other than
  \<open>null\<close>, the scenario-generation route answers with status 400 whenever \<open>teamSize\<close> is
  not a positive number (first) or \<open>domain\<close> is missing, not a string, empty or blank.
  When the body is \<open>null\<close> or is not JSON, the route answers with status 500. In all
  these cases it sends no request to the model.
\<close>

theorem gen_POST_invalid_input:
  "(body = Inr b \<and> b \<noteq> JNull
      \<and> \<not> (\<exists>n. optional_get (Some b) ''teamSize'' = Some (JNumber n) \<and> 0 < n) \<longrightarrow>
    gen_POST JSON_parse fetch body =
      (NextResponse 400 (error_body ''Invalid 'teamSize' provided. Must be a positive number.''), []))
   \<and> (body = Inr b \<and> b \<noteq> JNull
      \<and> (\<exists>n. optional_get (Some b) ''teamSize'' = Some (JNumber n) \<and> 0 < n)
      \<and> \<not> (\<exists>s. optional_get (Some b) ''domain'' = Some (JString s) \<and> trim s \<noteq> []) \<longrightarrow>
    gen_POST JSON_parse fetch body =
      (NextResponse 400 (error_body ''Invalid 'domain' provided. Must be a non-empty string.''), []))
   \<and> (body = Inr JNull \<longrightarrow>
    gen_POST JSON_parse fetch body = (NextResponse 500 (error_body ''Internal server error''), []))
   \<and> (body = Inl m \<longrightarrow>
    gen_POST JSON_parse fetch body =
      (NextResponse 500 (error_body ''Failed to parse AI response as JSON.''), []))"
proof -
  have 1: "body = Inr b \<and> b \<noteq> JNull
      \<and> \<not> (\<exists>n. optional_get (Some b) ''teamSize'' = Some (JNumber n) \<and> 0 < n) \<longrightarrow>
    gen_POST JSON_parse fetch body =
      (NextResponse 400 (error_body ''Invalid 'teamSize' provided. Must be a positive number.''), [])"
    by (auto simp: gen_POST_def split: option.splits json.splits)
  have 2: "body = Inr b \<and> b \<noteq> JNull
      \<and> (\<exists>n. optional_get (Some b) ''teamSize'' = Some (JNumber n) \<and> 0 < n)
      \<and> \<not> (\<exists>s. optional_get (Some b) ''domain'' = Some (JString s) \<and> trim s \<noteq> []) \<longrightarrow>
    gen_POST JSON_parse fetch body =
      (NextResponse 400 (error_body ''Invalid 'domain' provided. Must be a non-empty string.''), [])"
    by (auto simp: gen_POST_def trim_Nil split: option.splits json.splits)
  have 3: "body = Inr JNull \<longrightarrow>
    gen_POST JSON_parse fetch body = (NextResponse 500 (error_body ''Internal server error''), [])"
    by (simp add: gen_POST_def)
  have 4: "body = Inl m \<longrightarrow>
    gen_POST JSON_parse fetch body =
      (NextResponse 500 (error_body ''Failed to parse AI response as JSON.''), [])"
    by (simp add: gen_POST_def)
  from 1 2 3 4 show ?thesis by blast
qed

text \<open>
  The theorem at the request bodies with a team size of zero, with a team size that is a
  string, without a domain, with a blank domain, at the body \<open>null\<close> and at a body that
  is not JSON.
\<close>

theorem gen_POST_invalid_input_witness:
  \<open>gen_POST JSON_parse_ecma gemini_down
      (request_json JSON_parse_ecma ''{"teamSize":0,"domain":"Healthcare"}'') =
     (NextResponse 400 (error_body ''Invalid 'teamSize' provided. Must be a positive number.''), [])
   \<and> gen_POST JSON_parse_ecma gemini_down
      (request_json JSON_parse_ecma ''{"teamSize":"4","domain":"Healthcare"}'') =
     (NextResponse 400 (error_body ''Invalid 'teamSize' provided. Must be a positive number.''), [])
   \<and> gen_POST JSON_parse_ecma gemini_down (request_json JSON_parse_ecma ''{"teamSize":4}'') =
     (NextResponse 400 (error_body ''Invalid 'domain' provided. Must be a non-empty string.''), [])
   \<and> gen_POST JSON_parse_ecma gemini_down
      (request_json JSON_parse_ecma ''{"teamSize":4,"domain":" "}'') =
     (NextResponse 400 (error_body ''Invalid 'domain' provided. Must be a non-empty string.''), [])
   \<and> gen_POST JSON_parse_ecma gemini_down (request_json JSON_parse_ecma ''null'') =
     (NextResponse 500 (error_body ''Internal server error''), [])
   \<and> gen_POST JSON_parse_ecma gemini_down (request_json JSON_parse_ecma ''teamSize=4'') =
     (NextResponse 500 (error_body ''Failed to parse AI response as JSON.''), [])\<close>
  unfolding request_bodies
  using gen_POST_invalid_input
      [of "Inr (JObject [(''teamSize'', JNumber 0), (''domain'', JString ''Healthcare'')])"
        "JObject [(''teamSize'', JNumber 0), (''domain'', JString ''Healthcare'')]"
        JSON_parse_ecma gemini_down]
    gen_POST_invalid_input
      [of "Inr (JObject [(''teamSize'', JString ''4''), (''domain'', JString ''Healthcare'')])"
        "JObject [(''teamSize'', JString ''4''), (''domain'', JString ''Healthcare'')]"
        JSON_parse_ecma gemini_down]
    gen_POST_invalid_input
      [of "Inr (JObject [(''teamSize'', JNumber 4)])" "JObject [(''teamSize'', JNumber 4)]"
        JSON_parse_ecma gemini_down]
    gen_POST_invalid_input
      [of "Inr (JObject [(''teamSize'', JNumber 4), (''domain'', JString '' '')])"
        "JObject [(''teamSize'', JNumber 4), (''domain'', JString '' '')]"
        JSON_parse_ecma gemini_down]
    gen_POST_invalid_input [of "Inr JNull" _ JSON_parse_ecma gemini_down]
    gen_POST_invalid_input [of "Inl ''SyntaxError''" _ JSON_parse_ecma gemini_down "''SyntaxError''"]
  by (simp add: trim_blank)

text \<open>
  Claim C6 as stated says that a request whose \<open>teamSize\<close> or \<open>domain\<close> is missing is
  answered 400. The body \<open>null\<close> has neither, and is answered 500.
\<close>

theorem gen_POST_null_body_counterexample:
  \<open>gen_POST JSON_parse_ecma gemini_down (request_json JSON_parse_ecma ''null'') =
     (NextResponse 500 (error_body ''Internal server error''), [])
   \<and> request_json JSON_parse_ecma ''null'' = Inr JNull
   \<and> optional_get (Some JNull) ''teamSize'' = None
   \<and> optional_get (Some JNull) ''domain'' = None\<close>
  unfolding request_bodies by (simp add: gen_POST_def)

section \<open>The analysis route\<close>

lemma analyze_stored:
  assumes "i \<noteq> []" "db i = Some d" "transcript d = Some tr" "2 \<le> length tr"
    "analysis d = Some a" "truthy a"
  shows "analyze_interview_POST JSON_parse fetch db (Some i) = (NextResponse 200 a, db, [])"
  using assms by (simp add: analyze_interview_POST_def)

lemma analyze_generated:
  assumes "i \<noteq> []" "db i = Some d" "transcript d = Some tr" "2 \<le> length tr"
    "\<not> ToBoolean (analysis d)"
    "analyze_interview_POST JSON_parse fetch db (Some i) = (NextResponse 200 a, db1, calls1)"
  shows "db1 = db(i \<mapsto> d\<lparr>analysis := Some a, status := ''analyzed''\<rparr>)
         \<and> calls1 = [analyze_payload (teamSize d) (domain d) tr]
         \<and> (\<exists>st statusText bodyText result cand text.
               fetch (analyze_payload (teamSize d) (domain d) tr)
                 = Fetched st statusText bodyText (Inr result)
               \<and> ok st \<and> first_candidate result = Some cand
               \<and> candidate_text cand = Some text \<and> text \<noteq> [] \<and> JSON_parse text = Inr a)"
  using assms
  by (auto simp: analyze_interview_POST_def updateDoc_def Let_def
      split: fetched.splits sum.splits option.splits if_splits)

lemma analyze_generates:
  assumes "i \<noteq> []" "db i = Some d" "transcript d = Some tr" "2 \<le> length tr"
    "\<not> ToBoolean (analysis d)"
    "fetch (analyze_payload (teamSize d) (domain d) tr) = Fetched st statusText bodyText (Inr result)"
    "ok st" "first_candidate result = Some cand" "candidate_text cand = Some text"
    "text \<noteq> []" "JSON_parse text = Inr a"
  shows "analyze_interview_POST JSON_parse fetch db (Some i) =
           (NextResponse 200 a, db(i \<mapsto> d\<lparr>analysis := Some a, status := ''analyzed''\<rparr>),
            [analyze_payload (teamSize d) (domain d) tr])"
  using assms by (simp add: analyze_interview_POST_def updateDoc_def Let_def)

lemma parse_overallScore:
  \<open>JSON_parse_ecma ''{"overallScore":72}'' = Inr (JObject [(''overallScore'', JNumber 72)])\<close>
  by code_simp

lemma one_doc_sim1: "one_doc d ''sim1'' = Some d"
  by (simp add: one_doc_def)

lemma gemini_says_text:
  "first_candidate (says t) = Some (Candidate (Some (Content (Some [Part (Some t)]))))"
  "candidate_text (Candidate (Some (Content (Some [Part (Some t)])))) = Some t"
  by (simp_all add: says_def first_candidate_def candidate_text_def)

lemma analyze_says_overallScore:
  \<open>analyze_interview_POST JSON_parse_ecma (gemini_says ''{"overallScore":72}'')
      (one_doc (sim_doc [opening_entry, team_entry] None)) (Some ''sim1'')
    = (NextResponse 200 (JObject [(''overallScore'', JNumber 72)]),
       (one_doc (sim_doc [opening_entry, team_entry] None))
         (''sim1'' \<mapsto> (sim_doc [opening_entry, team_entry] None)
            \<lparr>analysis := Some (JObject [(''overallScore'', JNumber 72)]), status := ''analyzed''\<rparr>),
       [analyze_payload 4 ''Healthcare'' [opening_entry, team_entry]])\<close>
  using analyze_generates [of "''sim1''" "one_doc (sim_doc [opening_entry, team_entry] None)"
      "sim_doc [opening_entry, team_entry] None" "[opening_entry, team_entry]"
      \<open>gemini_says ''{"overallScore":72}''\<close> 200 "''OK''" "[]" \<open>says ''{"overallScore":72}''\<close>
      _ \<open>''{"overallScore":72}''\<close> JSON_parse_ecma "JObject [(''overallScore'', JNumber 72)]"]
    parse_overallScore
  by (simp add: one_doc_sim1 sim_doc_def gemini_says_def gemini_says_text ok_def)


text \<open>
  Claim C5. For a document id that is given (not empty), the analysis route answers 404
  when the store has no document of that id, and 400 when the document's transcript has
  fewer than two entries (or is absent); in both cases the store is returned as it was
  and no request is sent to the model.
\<close>

theorem analyze_NotFound_InsufficientData:
  assumes "docId = Some i" and "i \<noteq> []"
  shows "(db i = None \<longrightarrow>
            analyze_interview_POST JSON_parse fetch db docId =
              (NextResponse 404 (error_body ''Simulation not found''), db, []))
         \<and> ((\<exists>d. db i = Some d \<and> (\<forall>tr. transcript d = Some tr \<longrightarrow> length tr < 2)) \<longrightarrow>
            analyze_interview_POST JSON_parse fetch db docId =
              (NextResponse 400 (error_body ''Transcript is too short to analyze''), db, []))"
  using assms
  by (auto simp: analyze_interview_POST_def split: option.splits)

text \<open>The theorem at an empty store and at a document whose transcript has one entry.\<close>

theorem analyze_NotFound_InsufficientData_witness:
  "analyze_interview_POST JSON_parse_ecma gemini_down no_docs (Some ''sim1'') =
     (NextResponse 404 (error_body ''Simulation not found''), no_docs, [])
   \<and> analyze_interview_POST JSON_parse_ecma gemini_down (one_doc (sim_doc [opening_entry] None))
        (Some ''sim1'') =
     (NextResponse 400 (error_body ''Transcript is too short to analyze''),
      one_doc (sim_doc [opening_entry] None), [])"
  using analyze_NotFound_InsufficientData [of "Some ''sim1''" "''sim1''" no_docs JSON_parse_ecma gemini_down]
    analyze_NotFound_InsufficientData [of "Some ''sim1''" "''sim1''" "one_doc (sim_doc [opening_entry] None)"
      JSON_parse_ecma gemini_down]
  by (simp add: no_docs_def one_doc_sim1 sim_doc_def)

text \<open>
  Claim C9. The stored analysis is looked at only after the length of the transcript:
  for a document whose analysis is set and whose transcript has fewer than two entries,
  the route answers 400 (transcript too short) and not the stored analysis.
\<close>

theorem analyze_length_check_before_stored_analysis:
  assumes "docId = Some i" and "i \<noteq> []" and "db i = Some d"
    and "analysis d = Some a" and "transcript d = Some tr" and "length tr < 2"
  shows "analyze_interview_POST JSON_parse fetch db docId =
           (NextResponse 400 (error_body ''Transcript is too short to analyze''), db, [])
         \<and> analyze_interview_POST JSON_parse fetch db docId \<noteq> (NextResponse 200 a, db, [])"
  using assms
  by (simp add: analyze_interview_POST_def)

text \<open>The theorem at a document with a stored analysis and a transcript of one entry.\<close>

theorem analyze_length_check_before_stored_analysis_witness:
  "analyze_interview_POST JSON_parse_ecma gemini_down
     (one_doc (sim_doc [opening_entry] (Some (JObject [(''overallScore'', JNumber 72)]))))
     (Some ''sim1'')
   = (NextResponse 400 (error_body ''Transcript is too short to analyze''),
      one_doc (sim_doc [opening_entry] (Some (JObject [(''overallScore'', JNumber 72)]))), [])"
  using analyze_length_check_before_stored_analysis
    [of "Some ''sim1''" "''sim1''"
      "one_doc (sim_doc [opening_entry] (Some (JObject [(''overallScore'', JNumber 72)])))"
      "sim_doc [opening_entry] (Some (JObject [(''overallScore'', JNumber 72)]))"
      "JObject [(''overallScore'', JNumber 72)]" "[opening_entry]" JSON_parse_ecma gemini_down]
  by (simp add: one_doc_sim1 sim_doc_def)

text \<open>
  Claim C2, as the code has it. Take a document with a transcript of at least two
  entries, and a value that counts as true, as every JSON object and so every analysis
  of the declared shape does. If the analysis field holds that value, the route returns
  it, leaves the store as it is and sends no request to the model. And if one call of
  the route returns that value, a second call on the store the first one left returns
  the same value, whatever the model would answer then, sends no request and writes
  nothing, so that the two calls together send at most one request.
\<close>

theorem analyze_twice_same_analysis_one_call:
  assumes "i \<noteq> []" and "db i = Some d" and "transcript d = Some tr" and "2 \<le> length tr"
    and "truthy a"
  shows "(analysis d = Some a \<longrightarrow>
            analyze_interview_POST JSON_parse fetch db (Some i) = (NextResponse 200 a, db, []))
         \<and> (analyze_interview_POST JSON_parse fetch db (Some i) = (NextResponse 200 a, db1, calls1) \<longrightarrow>
            analyze_interview_POST JSON_parse' fetch' db1 (Some i) = (NextResponse 200 a, db1, [])
            \<and> length (calls1 @ snd (snd (analyze_interview_POST JSON_parse' fetch' db1 (Some i)))) \<le> 1)"
proof (intro conjI impI)
  assume "analysis d = Some a"
  with assms show "analyze_interview_POST JSON_parse fetch db (Some i) = (NextResponse 200 a, db, [])"
    by (simp add: analyze_stored)
next
  assume first: "analyze_interview_POST JSON_parse fetch db (Some i) = (NextResponse 200 a, db1, calls1)"
  have "analyze_interview_POST JSON_parse' fetch' db1 (Some i) = (NextResponse 200 a, db1, [])
        \<and> length calls1 \<le> 1"
  proof (cases "ToBoolean (analysis d)")
    case True
    then obtain a0 where a0: "analysis d = Some a0" "truthy a0"
      by (cases "analysis d") auto
    with assms have "analyze_interview_POST JSON_parse fetch db (Some i) = (NextResponse 200 a0, db, [])"
      by (simp add: analyze_stored)
    with first have "a0 = a" "db1 = db" "calls1 = []" by simp_all
    with a0 assms show ?thesis by (simp add: analyze_stored)
  next
    case False
    with assms first
    have g: "db1 = db(i \<mapsto> d\<lparr>analysis := Some a, status := ''analyzed''\<rparr>)"
      "calls1 = [analyze_payload (teamSize d) (domain d) tr]"
      using analyze_generated [of i db d tr JSON_parse fetch a db1 calls1] by simp_all
    have "db1 i = Some (d\<lparr>analysis := Some a, status := ''analyzed''\<rparr>)"
      using g by simp
    moreover have "transcript (d\<lparr>analysis := Some a, status := ''analyzed''\<rparr>) = Some tr"
      using assms by simp
    moreover have "analysis (d\<lparr>analysis := Some a, status := ''analyzed''\<rparr>) = Some a"
      by simp
    ultimately have "analyze_interview_POST JSON_parse' fetch' db1 (Some i) = (NextResponse 200 a, db1, [])"
      using assms
        analyze_stored [of i db1 "d\<lparr>analysis := Some a, status := ''analyzed''\<rparr>" tr a JSON_parse' fetch']
      by simp
    with g show ?thesis by simp
  qed
  then show "analyze_interview_POST JSON_parse' fetch' db1 (Some i) = (NextResponse 200 a, db1, [])"
    and "length (calls1 @ snd (snd (analyze_interview_POST JSON_parse' fetch' db1 (Some i)))) \<le> 1"
    by simp_all
qed

text \<open>
  The theorem at a document whose analysis is stored, and at the store left by a first
  call that generated the analysis; the model of the second call would answer otherwise.
\<close>

theorem analyze_twice_same_analysis_one_call_witness:
  \<open>analyze_interview_POST JSON_parse_ecma (gemini_says ''{"overallScore":1}'')
      (one_doc (sim_doc [opening_entry, team_entry] (Some (JObject [(''overallScore'', JNumber 72)]))))
      (Some ''sim1'')
    = (NextResponse 200 (JObject [(''overallScore'', JNumber 72)]),
       one_doc (sim_doc [opening_entry, team_entry] (Some (JObject [(''overallScore'', JNumber 72)]))), [])
   \<and> analyze_interview_POST JSON_parse_ecma (gemini_says ''{"overallScore":1}'')
      ((one_doc (sim_doc [opening_entry, team_entry] None))
         (''sim1'' \<mapsto> (sim_doc [opening_entry, team_entry] None)
            \<lparr>analysis := Some (JObject [(''overallScore'', JNumber 72)]), status := ''analyzed''\<rparr>))
      (Some ''sim1'')
    = (NextResponse 200 (JObject [(''overallScore'', JNumber 72)]),
       (one_doc (sim_doc [opening_entry, team_entry] None))
         (''sim1'' \<mapsto> (sim_doc [opening_entry, team_entry] None)
            \<lparr>analysis := Some (JObject [(''overallScore'', JNumber 72)]), status := ''analyzed''\<rparr>), [])\<close>
proof -
  have d: "transcript (sim_doc [opening_entry, team_entry] x) = Some [opening_entry, team_entry]"
    "analysis (sim_doc [opening_entry, team_entry] x) = x" for x
    by (simp_all add: sim_doc_def)
  note a = analyze_twice_same_analysis_one_call
      [of "''sim1''" "one_doc (sim_doc [opening_entry, team_entry] (Some (JObject [(''overallScore'', JNumber 72)])))"
        "sim_doc [opening_entry, team_entry] (Some (JObject [(''overallScore'', JNumber 72)]))"
        "[opening_entry, team_entry]" "JObject [(''overallScore'', JNumber 72)]"
        JSON_parse_ecma \<open>gemini_says ''{"overallScore":1}''\<close>, OF _ one_doc_sim1 d(1)]
  note b = analyze_twice_same_analysis_one_call
      [of "''sim1''" "one_doc (sim_doc [opening_entry, team_entry] None)"
        "sim_doc [opening_entry, team_entry] None"
        "[opening_entry, team_entry]" "JObject [(''overallScore'', JNumber 72)]"
        JSON_parse_ecma \<open>gemini_says ''{"overallScore":72}''\<close>
        "(one_doc (sim_doc [opening_entry, team_entry] None))
         (''sim1'' \<mapsto> (sim_doc [opening_entry, team_entry] None)
            \<lparr>analysis := Some (JObject [(''overallScore'', JNumber 72)]), status := ''analyzed''\<rparr>)"
        "[analyze_payload 4 ''Healthcare'' [opening_entry, team_entry]]"
        JSON_parse_ecma \<open>gemini_says ''{"overallScore":1}''\<close>, OF _ one_doc_sim1 d(1)]
  have "analyze_interview_POST JSON_parse_ecma (gemini_says ''{\"overallScore\":1}'')
      (one_doc (sim_doc [opening_entry, team_entry] (Some (JObject [(''overallScore'', JNumber 72)]))))
      (Some ''sim1'')
    = (NextResponse 200 (JObject [(''overallScore'', JNumber 72)]),
       one_doc (sim_doc [opening_entry, team_entry] (Some (JObject [(''overallScore'', JNumber 72)]))), [])"
    using a by (simp add: d)
  moreover have "analyze_interview_POST JSON_parse_ecma (gemini_says ''{\"overallScore\":1}'')
      ((one_doc (sim_doc [opening_entry, team_entry] None))
         (''sim1'' \<mapsto> (sim_doc [opening_entry, team_entry] None)
            \<lparr>analysis := Some (JObject [(''overallScore'', JNumber 72)]), status := ''analyzed''\<rparr>))
      (Some ''sim1'')
    = (NextResponse 200 (JObject [(''overallScore'', JNumber 72)]),
       (one_doc (sim_doc [opening_entry, team_entry] None))
         (''sim1'' \<mapsto> (sim_doc [opening_entry, team_entry] None)
            \<lparr>analysis := Some (JObject [(''overallScore'', JNumber 72)]), status := ''analyzed''\<rparr>), [])"
    using b analyze_says_overallScore by simp
  ultimately show ?thesis by simp
qed

text \<open>
  Claim C2 as stated speaks of every analysis the route returns and stores. A model that
  answers with the text \<open>0\<close> gets the number 0 returned and stored; the route's test of
  the stored analysis takes 0 for no analysis, so the second call asks the model again
  and returns what it answers then: two requests, and two different values.
\<close>

theorem analyze_falsy_analysis_counterexample:
  \<open>fst (analyze_interview_POST JSON_parse_ecma (gemini_says ''0'')
          (one_doc (sim_doc [opening_entry, team_entry] None)) (Some ''sim1''))
    = NextResponse 200 (JNumber 0)
   \<and> snd (snd (analyze_interview_POST JSON_parse_ecma (gemini_says ''0'')
          (one_doc (sim_doc [opening_entry, team_entry] None)) (Some ''sim1'')))
    = [analyze_payload 4 ''Healthcare'' [opening_entry, team_entry]]
   \<and> map_option analysis
       (fst (snd (analyze_interview_POST JSON_parse_ecma (gemini_says ''0'')
          (one_doc (sim_doc [opening_entry, team_entry] None)) (Some ''sim1''))) ''sim1'')
     = Some (Some (JNumber 0))
   \<and> fst (analyze_interview_POST JSON_parse_ecma (gemini_says ''{"overallScore":72}'')
          (fst (snd (analyze_interview_POST JSON_parse_ecma (gemini_says ''0'')
             (one_doc (sim_doc [opening_entry, team_entry] None)) (Some ''sim1''))))
          (Some ''sim1''))
    = NextResponse 200 (JObject [(''overallScore'', JNumber 72)])
   \<and> snd (snd (analyze_interview_POST JSON_parse_ecma (gemini_says ''{"overallScore":72}'')
          (fst (snd (analyze_interview_POST JSON_parse_ecma (gemini_says ''0'')
             (one_doc (sim_doc [opening_entry, team_entry] None)) (Some ''sim1''))))
          (Some ''sim1'')))
    = [analyze_payload 4 ''Healthcare'' [opening_entry, team_entry]]\<close>
  by code_simp

text \<open>
  Claim C8, as the code has it. When the route generates an analysis, it stores and
  returns exactly the JSON value that the model's text parses to; the route itself does
  not look at the fields of that value. The schema it sends with the request lists the
  five top-level fields as required and declares the six metric names as the properties
  of \<open>heatmapData\<close>, none of them marked as required.
\<close>

theorem analyze_persists_what_the_model_returned:
  assumes "i \<noteq> []" and "db i = Some d" and "transcript d = Some tr" and "2 \<le> length tr"
    and "\<not> ToBoolean (analysis d)"
    and "fetch (analyze_payload (teamSize d) (domain d) tr) = Fetched st statusText bodyText (Inr result)"
    and "ok st" and "first_candidate result = Some cand" and "candidate_text cand = Some text"
    and "text \<noteq> []" and "JSON_parse text = Inr a"
  shows "analyze_interview_POST JSON_parse fetch db (Some i) =
           (NextResponse 200 a, db(i \<mapsto> d\<lparr>analysis := Some a, status := ''analyzed''\<rparr>),
            [analyze_payload (teamSize d) (domain d) tr])
         \<and> responseSchema (analyze_payload (teamSize d) (domain d) tr) = Some analyze_responseSchema
         \<and> required analyze_responseSchema =
             [''overallScore'', ''keyStrengths'', ''growthAreas'', ''actionableFeedback'', ''heatmapData'']
         \<and> map_of (properties analyze_responseSchema) ''heatmapData'' = Some heatmapData_schema
         \<and> map fst (properties heatmapData_schema) =
             [''Decisiveness'', ''Ethical Focus'', ''Data-Driven'', ''Long-Term Thinking'',
              ''Bias for Action'', ''Collaboration'']
         \<and> required heatmapData_schema = []"
proof -
  have "analyze_interview_POST JSON_parse fetch db (Some i) =
           (NextResponse 200 a, db(i \<mapsto> d\<lparr>analysis := Some a, status := ''analyzed''\<rparr>),
            [analyze_payload (teamSize d) (domain d) tr])"
    using assms by (rule analyze_generates)
  moreover have "responseSchema (analyze_payload (teamSize d) (domain d) tr) = Some analyze_responseSchema"
    by (simp add: analyze_payload_def)
  moreover have "required analyze_responseSchema =
             [''overallScore'', ''keyStrengths'', ''growthAreas'', ''actionableFeedback'', ''heatmapData'']"
    by (simp add: required_def analyze_responseSchema_def)
  moreover have "map_of (properties analyze_responseSchema) ''heatmapData'' = Some heatmapData_schema"
    by (simp add: properties_def analyze_responseSchema_def)
  moreover have "map fst (properties heatmapData_schema) =
             [''Decisiveness'', ''Ethical Focus'', ''Data-Driven'', ''Long-Term Thinking'',
              ''Bias for Action'', ''Collaboration'']"
    by (simp add: properties_def heatmapData_schema_def)
  moreover have "required heatmapData_schema = []"
    by (simp add: required_def heatmapData_schema_def)
  ultimately show ?thesis by blast
qed


text \<open>The theorem at a model that answers with an object of one field.\<close>

theorem analyze_persists_what_the_model_returned_witness:
  \<open>analyze_interview_POST JSON_parse_ecma (gemini_says ''{"overallScore":72}'')
      (one_doc (sim_doc [opening_entry, team_entry] None)) (Some ''sim1'')
    = (NextResponse 200 (JObject [(''overallScore'', JNumber 72)]),
       (one_doc (sim_doc [opening_entry, team_entry] None))
         (''sim1'' \<mapsto> (sim_doc [opening_entry, team_entry] None)
            \<lparr>analysis := Some (JObject [(''overallScore'', JNumber 72)]), status := ''analyzed''\<rparr>),
       [analyze_payload 4 ''Healthcare'' [opening_entry, team_entry]])\<close>
  using analyze_persists_what_the_model_returned [of "''sim1''" "one_doc (sim_doc [opening_entry, team_entry] None)"
      "sim_doc [opening_entry, team_entry] None" "[opening_entry, team_entry]"
      \<open>gemini_says ''{"overallScore":72}''\<close> 200 "''OK''" "[]" \<open>says ''{"overallScore":72}''\<close>
      _ \<open>''{"overallScore":72}''\<close> JSON_parse_ecma "JObject [(''overallScore'', JNumber 72)]"]
    parse_overallScore
  by (simp add: one_doc_sim1 sim_doc_def gemini_says_def gemini_says_text ok_def)

text \<open>
  Claim C8 as stated says that every analysis produced and persisted has the five fields
  and the six metrics, each metric required by the schema. A model that answers with an
  object holding only \<open>overallScore\<close> gets that object stored and returned, and the schema
  of \<open>heatmapData\<close> has no required entry.
\<close>

theorem analyze_incomplete_analysis_counterexample:
  \<open>fst (analyze_interview_POST JSON_parse_ecma (gemini_says ''{"overallScore":72}'')
      (one_doc (sim_doc [opening_entry, team_entry] None)) (Some ''sim1''))
    = NextResponse 200 (JObject [(''overallScore'', JNumber 72)])
   \<and> map_option analysis
       (fst (snd (analyze_interview_POST JSON_parse_ecma (gemini_says ''{"overallScore":72}'')
          (one_doc (sim_doc [opening_entry, team_entry] None)) (Some ''sim1''))) ''sim1'')
     = Some (Some (JObject [(''overallScore'', JNumber 72)]))
   \<and> optional_get (Some (JObject [(''overallScore'', JNumber 72)])) ''heatmapData'' = None
   \<and> optional_get (Some (JObject [(''overallScore'', JNumber 72)])) ''keyStrengths'' = None
   \<and> required heatmapData_schema = []\<close>
  using analyze_says_overallScore
  by (simp add: required_def heatmapData_schema_def)


section \<open>Scenario generation: the batch returned\<close>

lemma gen_POST_valid:
  assumes "b \<noteq> JNull" and "optional_get (Some b) ''teamSize'' = Some (JNumber n)" and "0 < n"
    and "optional_get (Some b) ''domain'' = Some (JString d)" and "trim d \<noteq> []"
  shows "gen_POST JSON_parse fetch (Inr b) =
     (case fetch (gen_payload n d) of
        FetchFailed m \<Rightarrow> (NextResponse 500 (error_body ''Internal server error''), [gen_payload n d])
      | Fetched st statusText errorBody js \<Rightarrow>
          if \<not> ok st then
            (if 200 \<le> st \<and> st \<le> 599 then
               NextResponse st (error_details (''Gemini API error: '' @ statusText) errorBody)
             else NextResponse 500 (error_body ''Internal server error''),
             [gen_payload n d])
          else
            (case js of
               Inl m \<Rightarrow>
                 (NextResponse 500 (error_body ''Failed to parse AI response as JSON.''),
                  [gen_payload n d])
             | Inr result \<Rightarrow>
                 (case (case first_candidate result of
                          None \<Rightarrow> None
                        | Some cand \<Rightarrow> candidate_text cand) of
                    None \<Rightarrow>
                      (NextResponse 500 (error_body ''Invalid response structure from AI model''),
                       [gen_payload n d])
                  | Some scenariosJson \<Rightarrow>
                      if scenariosJson = [] then
                        (NextResponse 500 (error_body ''Invalid response structure from AI model''),
                         [gen_payload n d])
                      else
                        (case JSON_parse scenariosJson of
                           Inl m \<Rightarrow>
                             (NextResponse 500 (error_body ''Failed to parse AI response as JSON.''),
                              [gen_payload n d])
                         | Inr scenarios \<Rightarrow> (NextResponse 200 scenarios, [gen_payload n d])))))"
proof -
  have "d \<noteq> []" using assms(5) trim_Nil by auto
  with assms show ?thesis
    by (simp add: gen_POST_def Let_def split: fetched.splits sum.splits option.splits)
qed

lemma parse_one_title:
  \<open>JSON_parse_ecma ''[{"title":"T"}]'' = Inr (JArray [JObject [(''title'', JString ''T'')]])\<close>
  by code_simp

lemma gen_body_fields:
  "optional_get (Some (JObject [(''teamSize'', ts), (''domain'', dm)])) ''teamSize'' = Some ts"
  "optional_get (Some (JObject [(''teamSize'', ts), (''domain'', dm)])) ''domain'' = Some dm"
  by simp_all

text \<open>
  Claim C1, as the code has it. For every valid input (a positive \<open>teamSize\<close>, a
  \<open>domain\<close> that is not blank) the route sends one request, whose schema asks for an
  array of exactly 10 objects with \<open>title\<close>, \<open>description\<close> and \<open>keyDecision\<close> required.
  Whenever the model answers with a text that parses as JSON, the route returns the
  parsed value with status 200, whatever value it is: the route itself checks neither
  the number of items nor their fields. In every other case the route answers with an
  error: a status that is not 2xx and an \<open>error\<close> message.
\<close>

theorem gen_POST_returns_what_the_model_returned:
  assumes "body = Inr b" and "b \<noteq> JNull"
    and "optional_get (Some b) ''teamSize'' = Some (JNumber n)" and "0 < n"
    and "optional_get (Some b) ''domain'' = Some (JString d)" and "trim d \<noteq> []"
  shows "snd (gen_POST JSON_parse fetch body) = [gen_payload n d]
         \<and> responseSchema (gen_payload n d) =
             Some (ARRAY (OBJECT [(''title'', STRING), (''description'', STRING),
                                   (''keyDecision'', STRING)]
                            (Some [''title'', ''description'', ''keyDecision'']))
                     (Some 10) (Some 10))
         \<and> (fetch (gen_payload n d) = Fetched st statusText bodyText (Inr result)
              \<and> ok st \<and> first_candidate result = Some cand
              \<and> candidate_text cand = Some text \<and> text \<noteq> []
              \<and> JSON_parse text = Inr scenarios \<longrightarrow>
            gen_POST JSON_parse fetch body = (NextResponse 200 scenarios, [gen_payload n d]))
         \<and> (\<not> (\<exists>st' statusText' bodyText' result' cand' text' scenarios'.
                  fetch (gen_payload n d) = Fetched st' statusText' bodyText' (Inr result')
                  \<and> ok st' \<and> first_candidate result' = Some cand'
                  \<and> candidate_text cand' = Some text' \<and> text' \<noteq> []
                  \<and> JSON_parse text' = Inr scenarios') \<longrightarrow>
            \<not> ok (resp_status (fst (gen_POST JSON_parse fetch body)))
            \<and> (\<exists>msg. optional_get (Some (resp_body (fst (gen_POST JSON_parse fetch body))))
                        ''error'' = Some (JString msg)))"
proof -
  note v = gen_POST_valid [OF assms(2-6), of JSON_parse fetch]
  have 1: "snd (gen_POST JSON_parse fetch body) = [gen_payload n d]"
    unfolding assms(1) v
    by (simp split: fetched.splits sum.splits option.splits)
  have 2: "responseSchema (gen_payload n d) =
             Some (ARRAY (OBJECT [(''title'', STRING), (''description'', STRING),
                                   (''keyDecision'', STRING)]
                            (Some [''title'', ''description'', ''keyDecision'']))
                     (Some 10) (Some 10))"
    by (simp add: gen_payload_def gen_responseSchema_def)
  have 3: "fetch (gen_payload n d) = Fetched st statusText bodyText (Inr result)
              \<and> ok st \<and> first_candidate result = Some cand
              \<and> candidate_text cand = Some text \<and> text \<noteq> []
              \<and> JSON_parse text = Inr scenarios \<longrightarrow>
            gen_POST JSON_parse fetch body = (NextResponse 200 scenarios, [gen_payload n d])"
    unfolding assms(1) v by simp
  have 4: "\<not> (\<exists>st' statusText' bodyText' result' cand' text' scenarios'.
                  fetch (gen_payload n d) = Fetched st' statusText' bodyText' (Inr result')
                  \<and> ok st' \<and> first_candidate result' = Some cand'
                  \<and> candidate_text cand' = Some text' \<and> text' \<noteq> []
                  \<and> JSON_parse text' = Inr scenarios') \<longrightarrow>
            \<not> ok (resp_status (fst (gen_POST JSON_parse fetch body)))
            \<and> (\<exists>msg. optional_get (Some (resp_body (fst (gen_POST JSON_parse fetch body))))
                        ''error'' = Some (JString msg))"
    unfolding assms(1) v
    by (auto simp: ok_def error_body_def error_details_def
        split: fetched.splits sum.splits option.splits)
  from 1 2 3 4 show ?thesis by blast
qed


text \<open>
  The theorem at a model that answers with an array of one item, and at a model that
  cannot be reached.
\<close>

theorem gen_POST_returns_what_the_model_returned_witness:
  \<open>gen_POST JSON_parse_ecma (gemini_says ''[{"title":"T"}]'')
      (gen_body (JNumber 4) (JString ''Healthcare''))
    = (NextResponse 200 (JArray [JObject [(''title'', JString ''T'')]]),
       [gen_payload 4 ''Healthcare''])
   \<and> gen_POST JSON_parse_ecma gemini_down (gen_body (JNumber 4) (JString ''Healthcare''))
    = (NextResponse 500 (error_body ''Internal server error''), [gen_payload 4 ''Healthcare''])\<close>
proof -
  have t: "trim ''Healthcare'' \<noteq> []" by code_simp
  have p: "0 < (4::rat)" by simp
  have n: "JObject [(''teamSize'', JNumber 4), (''domain'', JString ''Healthcare'')] \<noteq> JNull"
    by simp
  have b: "gen_body (JNumber 4) (JString ''Healthcare'')
           = Inr (JObject [(''teamSize'', JNumber 4), (''domain'', JString ''Healthcare'')])"
    by (simp add: gen_body_def)
  have f: \<open>gemini_says ''[{"title":"T"}]'' (gen_payload 4 ''Healthcare'')
           = Fetched 200 ''OK'' [] (Inr (says ''[{"title":"T"}]''))\<close>
    by (simp add: gemini_says_def)
  have o: "ok 200" by (simp add: ok_def)
  have 1: \<open>gen_POST JSON_parse_ecma (gemini_says ''[{"title":"T"}]'')
      (gen_body (JNumber 4) (JString ''Healthcare''))
    = (NextResponse 200 (JArray [JObject [(''title'', JString ''T'')]]),
       [gen_payload 4 ''Healthcare''])\<close>
    using gen_POST_returns_what_the_model_returned
      [where body = "gen_body (JNumber 4) (JString ''Healthcare'')"
        and b = "JObject [(''teamSize'', JNumber 4), (''domain'', JString ''Healthcare'')]"
        and n = 4 and d = "''Healthcare''" and JSON_parse = JSON_parse_ecma
        and fetch = \<open>gemini_says ''[{"title":"T"}]''\<close>
        and st = 200 and statusText = "''OK''" and bodyText = "[]"
        and result = \<open>says ''[{"title":"T"}]''\<close>
        and cand = \<open>Candidate (Some (Content (Some [Part (Some ''[{"title":"T"}]'')])))\<close>
        and ?text = \<open>''[{"title":"T"}]''\<close>
        and scenarios = "JArray [JObject [(''title'', JString ''T'')]]"]
      b n gen_body_fields p t f o gemini_says_text parse_one_title
    by simp
  have 2: "gen_POST JSON_parse_ecma gemini_down (gen_body (JNumber 4) (JString ''Healthcare''))
    = (NextResponse 500 (error_body ''Internal server error''), [gen_payload 4 ''Healthcare''])"
    unfolding b by (simp add: gen_POST_valid [OF n gen_body_fields(1) p gen_body_fields(2) t] gemini_down_def)
  from 1 2 show ?thesis by simp
qed

text \<open>
  Claim C1 as stated says that the route never returns a batch that is not of 10 complete
  items. A model that answers with one item holding only a title gets that batch returned
  with status 200.
\<close>

theorem gen_POST_short_batch_counterexample:
  \<open>gen_POST JSON_parse_ecma (gemini_says ''[{"title":"T"}]'')
      (gen_body (JNumber 4) (JString ''Healthcare''))
    = (NextResponse 200 (JArray [JObject [(''title'', JString ''T'')]]),
       [gen_payload 4 ''Healthcare''])
   \<and> length [JObject [(''title'', JString ''T'')]] \<noteq> 10
   \<and> optional_get (Some (JObject [(''title'', JString ''T'')])) ''description'' = None\<close>
proof -
  have t: "trim ''Healthcare'' \<noteq> []" by code_simp
  have p: "0 < (4::rat)" by simp
  have n: "JObject [(''teamSize'', JNumber 4), (''domain'', JString ''Healthcare'')] \<noteq> JNull"
    by simp
  show ?thesis
    using parse_one_title
    by (simp add: gen_body_def gen_POST_valid [OF n gen_body_fields(1) p gen_body_fields(2) t]
        gemini_says_def gemini_says_text ok_def)
qed

section \<open>The opening prompt\<close>












section \<open>The submit handler\<close>

lemma handleSubmitResponse_idle:
  "trim (userResponse st) = [] \<or> simulationDocId st = None \<Longrightarrow>
     handleSubmitResponse teamNow hostNow fetch (st, db) = (st, db)"
  by (auto simp: handleSubmitResponse_def split: option.splits)

lemma handleSubmitResponse_failure:
  assumes "simulationDocId st = Some docId" and "trim (userResponse st) \<noteq> []"
    and "db docId = Some d"
    and "teamEntry = \<lparr>role = team, content = JString (userResponse st), timestamp = teamNow\<rparr>"
    and "accepted_host_line
           (fetch (teamSize_state st) (domain_state st) (scenario_state st)
              (map (\<lambda>t. (role t, content t)) (transcript_state st @ [teamEntry]))) = None"
  shows "snd (handleSubmitResponse teamNow hostNow fetch (st, db)) =
            db(docId \<mapsto> d\<lparr>transcript := Some (transcript_state st @ [teamEntry])\<rparr>)
         \<and> transcript_state (fst (handleSubmitResponse teamNow hostNow fetch (st, db))) =
             transcript_state st @ [teamEntry]
         \<and> userResponse (fst (handleSubmitResponse teamNow hostNow fetch (st, db))) = []
         \<and> simulationDocId (fst (handleSubmitResponse teamNow hostNow fetch (st, db))) = Some docId
         \<and> error (fst (handleSubmitResponse teamNow hostNow fetch (st, db))) \<noteq> None"
  using assms
  by (simp add: handleSubmitResponse_def updateDoc_def accepted_host_line_def caught_def Let_def
      split: fetched.splits sum.splits option.splits json.splits if_splits)


lemma accepted_host_line_Some:
  assumes "accepted_host_line r = Some line"
  shows "\<exists>stt statusText bodyText data. r = Fetched stt statusText bodyText (Inr data) \<and> ok stt
           \<and> optional_get (Some data) ''nextPrompt'' = Some (JString line) \<and> line \<noteq> []"
  using assms
  by (auto simp: accepted_host_line_def
      split: fetched.splits sum.splits option.splits json.splits if_splits)

lemma handleSubmitResponse_success:
  assumes "simulationDocId st = Some docId" and "trim (userResponse st) \<noteq> []"
    and "db docId = Some d"
    and "teamEntry = \<lparr>role = team, content = JString (userResponse st), timestamp = teamNow\<rparr>"
    and "accepted_host_line
           (fetch (teamSize_state st) (domain_state st) (scenario_state st)
              (map (\<lambda>t. (role t, content t)) (transcript_state st @ [teamEntry]))) = Some line"
    and "hostEntry = \<lparr>role = host, content = JString line, timestamp = hostNow\<rparr>"
  shows "snd (handleSubmitResponse teamNow hostNow fetch (st, db)) =
            db(docId \<mapsto> d\<lparr>transcript := Some (transcript_state st @ [teamEntry, hostEntry])\<rparr>)
         \<and> transcript_state (fst (handleSubmitResponse teamNow hostNow fetch (st, db))) =
             transcript_state st @ [teamEntry, hostEntry]
         \<and> userResponse (fst (handleSubmitResponse teamNow hostNow fetch (st, db))) = []
         \<and> simulationDocId (fst (handleSubmitResponse teamNow hostNow fetch (st, db))) = Some docId
         \<and> error (fst (handleSubmitResponse teamNow hostNow fetch (st, db))) = None"
proof -
  from accepted_host_line_Some [OF assms(5)]
  obtain stt statusText bodyText data where
    r: "fetch (teamSize_state st) (domain_state st) (scenario_state st)
          (map (\<lambda>t. (role t, content t)) (transcript_state st @ [teamEntry]))
        = Fetched stt statusText bodyText (Inr data)"
    and k: "ok stt" "optional_get (Some data) ''nextPrompt'' = Some (JString line)" "line \<noteq> []"
    by blast
  have r': "fetch (teamSize_state st) (domain_state st) (scenario_state st)
          (map (\<lambda>t. (role t, content t)) (transcript_state st) @ [(team, JString (userResponse st))])
        = Fetched stt statusText bodyText (Inr data)"
    using r assms(4) by simp
  show ?thesis
    using assms(1-4) assms(6) k r'
    by (simp add: handleSubmitResponse_def updateDoc_def Let_def)
qed

lemma host_call_fails:
  "accepted_host_line (next_prompt_api sdk_throws 4 ''Healthcare'' (Some breach) tr) = None"
  by (simp add: accepted_host_line_def next_prompt_api_def next_prompt_POST_def sdk_throws_def
      over_http_def ok_def Let_def error_details_def error_body_def split: if_splits)

lemma host_call_succeeds:
  \<open>accepted_host_line
     (next_prompt_api (sdk_says ''Host: "The press is calling."'') 4 ''Healthcare'' (Some breach)
        [(host, JString ''Your team has found a breach. What now?''),
         (team, JString ''We will notify regulators immediately.''),
         (team, JString ''We will notify regulators immediately.'')])
   = Some ''The press is calling.''\<close>
  by code_simp

lemma answering_fields:
  "simulationDocId answering = Some ''sim1''"
  "transcript_state answering = [opening_entry]"
  "userResponse answering = ''We will notify regulators immediately.''"
  "teamSize_state answering = 4" "domain_state answering = ''Healthcare''"
  "scenario_state answering = Some breach"
  by (simp_all add: answering_def started_def initial_state_def)

lemma trim_response: "trim ''We will notify regulators immediately.'' \<noteq> []"
  by code_simp

text \<open>
  Claim C3, as the code has it. Let the page hold the transcript that the store holds,
  and let the team submit a response. If the host line then fails to arrive, the stored
  transcript is the old one with the team's entry appended, and no host entry; the
  response box has been cleared, so submitting again without typing does nothing. When
  the team types again and submits, and the host line arrives, the handler appends the
  new team entry and then exactly one host entry: the stored transcript grows by two.
\<close>

theorem submit_failure_keeps_team_entry_retry_adds_two:
  assumes "simulationDocId st = Some docId" and "db docId = Some d"
    and "transcript d = Some (transcript_state st)"
    and "trim (userResponse st) \<noteq> []"
    and "teamEntry = \<lparr>role = team, content = JString (userResponse st), timestamp = teamNow\<rparr>"
    and "accepted_host_line
           (fetch (teamSize_state st) (domain_state st) (scenario_state st)
              (map (\<lambda>t. (role t, content t)) (transcript_state st @ [teamEntry]))) = None"
    and "w1 = handleSubmitResponse teamNow hostNow fetch (st, db)"
    and "trim again \<noteq> []"
    and "teamEntry' = \<lparr>role = team, content = JString again, timestamp = teamNow'\<rparr>"
    and "accepted_host_line
           (fetch' (teamSize_state (fst w1)) (domain_state (fst w1)) (scenario_state (fst w1))
              (map (\<lambda>t. (role t, content t)) (transcript_state st @ [teamEntry, teamEntry']))) = Some line"
    and "w2 = handleSubmitResponse teamNow' hostNow' fetch' (step (Type again) w1)"
  shows "stored_transcript (snd w1) docId = Some (transcript_state st @ [teamEntry])
         \<and> transcript_state (fst w1) = transcript_state st @ [teamEntry]
         \<and> handleSubmitResponse teamNow' hostNow' fetch' w1 = w1
         \<and> stored_transcript (snd w2) docId =
             Some (transcript_state st @
                   [teamEntry, teamEntry', \<lparr>role = host, content = JString line, timestamp = hostNow'\<rparr>])
         \<and> length (the (stored_transcript (snd w2) docId)) =
             length (the (stored_transcript (snd w1) docId)) + 2"
proof -
  have f: "snd (handleSubmitResponse teamNow hostNow fetch (st, db)) =
            db(docId \<mapsto> d\<lparr>transcript := Some (transcript_state st @ [teamEntry])\<rparr>)
         \<and> transcript_state (fst (handleSubmitResponse teamNow hostNow fetch (st, db))) =
             transcript_state st @ [teamEntry]
         \<and> userResponse (fst (handleSubmitResponse teamNow hostNow fetch (st, db))) = []
         \<and> simulationDocId (fst (handleSubmitResponse teamNow hostNow fetch (st, db))) = Some docId
         \<and> error (fst (handleSubmitResponse teamNow hostNow fetch (st, db))) \<noteq> None"
    using assms(1) assms(4) assms(2) assms(5) assms(6) by (rule handleSubmitResponse_failure)
  have s1: "snd w1 = db(docId \<mapsto> d\<lparr>transcript := Some (transcript_state st @ [teamEntry])\<rparr>)"
    and t1: "transcript_state (fst w1) = transcript_state st @ [teamEntry]"
    and u1: "userResponse (fst w1) = []"
    and i1: "simulationDocId (fst w1) = Some docId"
    using f assms(7) by simp_all
  have a: "stored_transcript (snd w1) docId = Some (transcript_state st @ [teamEntry])"
    using s1 by (simp add: stored_transcript_def)
  have b: "handleSubmitResponse teamNow' hostNow' fetch' w1 = w1"
    using handleSubmitResponse_idle [of "fst w1" teamNow' hostNow' fetch' "snd w1"] u1
    by (simp add: trim_def)
  define st' where "st' = (fst w1)\<lparr>userResponse := again\<rparr>"
  have w: "step (Type again) w1 = (st', snd w1)"
    by (simp add: st'_def)
  have p: "simulationDocId st' = Some docId" "trim (userResponse st') \<noteq> []"
    "snd w1 docId = Some (d\<lparr>transcript := Some (transcript_state st @ [teamEntry])\<rparr>)"
    "teamEntry' = \<lparr>role = team, content = JString (userResponse st'), timestamp = teamNow'\<rparr>"
    "transcript_state st' = transcript_state st @ [teamEntry]"
    "teamSize_state st' = teamSize_state (fst w1)" "domain_state st' = domain_state (fst w1)"
    "scenario_state st' = scenario_state (fst w1)"
    using i1 assms(8) assms(9) s1 t1 by (simp_all add: st'_def)
  have h: "accepted_host_line
           (fetch' (teamSize_state st') (domain_state st') (scenario_state st')
              (map (\<lambda>t. (role t, content t)) (transcript_state st' @ [teamEntry']))) = Some line"
    using assms(10) p by simp
  have "snd (handleSubmitResponse teamNow' hostNow' fetch' (st', snd w1)) =
            (snd w1)(docId \<mapsto> d\<lparr>transcript := Some (transcript_state st @ [teamEntry])\<rparr>
               \<lparr>transcript := Some (transcript_state st' @
                  [teamEntry', \<lparr>role = host, content = JString line, timestamp = hostNow'\<rparr>])\<rparr>)
         \<and> transcript_state (fst (handleSubmitResponse teamNow' hostNow' fetch' (st', snd w1))) =
             transcript_state st' @ [teamEntry', \<lparr>role = host, content = JString line, timestamp = hostNow'\<rparr>]
         \<and> userResponse (fst (handleSubmitResponse teamNow' hostNow' fetch' (st', snd w1))) = []
         \<and> simulationDocId (fst (handleSubmitResponse teamNow' hostNow' fetch' (st', snd w1))) = Some docId
         \<and> error (fst (handleSubmitResponse teamNow' hostNow' fetch' (st', snd w1))) = None"
    using p(1) p(2) p(3) p(4) h refl by (rule handleSubmitResponse_success)
  then have "snd w2 = (snd w1)(docId \<mapsto> d\<lparr>transcript := Some (transcript_state st @ [teamEntry]),
            transcript := Some (transcript_state st' @
              [teamEntry', \<lparr>role = host, content = JString line, timestamp = hostNow'\<rparr>])\<rparr>)"
    using assms(11) w by simp
  then have c: "stored_transcript (snd w2) docId =
             Some (transcript_state st @
                   [teamEntry, teamEntry', \<lparr>role = host, content = JString line, timestamp = hostNow'\<rparr>])"
    using p(5) by (simp add: stored_transcript_def)
  from a t1 b c show ?thesis by simp
qed

text \<open>
  The theorem at a started page, with the route behind the page's request: the model
  throws at the first submit and answers at the second.
\<close>

theorem submit_failure_keeps_team_entry_retry_adds_two_witness:
  \<open>stored_transcript
     (snd (handleSubmitResponse 2 3 (next_prompt_api sdk_throws)
             (answering, one_doc (sim_doc [opening_entry] None)))) ''sim1''
    = Some [opening_entry, team_entry]
   \<and> stored_transcript
     (snd (handleSubmitResponse 4 5 (next_prompt_api (sdk_says ''Host: "The press is calling."''))
             (step (Type ''We will notify regulators immediately.'')
                (handleSubmitResponse 2 3 (next_prompt_api sdk_throws)
                   (answering, one_doc (sim_doc [opening_entry] None)))))) ''sim1''
    = Some [opening_entry, team_entry,
            \<lparr>role = team, content = JString ''We will notify regulators immediately.'', timestamp = 4\<rparr>,
            \<lparr>role = host, content = JString ''The press is calling.'', timestamp = 5\<rparr>]\<close>
proof -
  have f: "teamSize_state (fst (handleSubmitResponse 2 3 (next_prompt_api sdk_throws)
             (answering, one_doc (sim_doc [opening_entry] None)))) = 4
    \<and> domain_state (fst (handleSubmitResponse 2 3 (next_prompt_api sdk_throws)
             (answering, one_doc (sim_doc [opening_entry] None)))) = ''Healthcare''
    \<and> scenario_state (fst (handleSubmitResponse 2 3 (next_prompt_api sdk_throws)
             (answering, one_doc (sim_doc [opening_entry] None)))) = Some breach"
    by code_simp
  from submit_failure_keeps_team_entry_retry_adds_two
    [where st = answering and docId = "''sim1''" and db = "one_doc (sim_doc [opening_entry] None)"
      and d = "sim_doc [opening_entry] None" and teamEntry = team_entry and teamNow = 2
      and hostNow = 3 and fetch = "next_prompt_api sdk_throws"
      and again = "''We will notify regulators immediately.''" and teamNow' = 4 and hostNow' = 5
      and teamEntry' = "\<lparr>role = team, content = JString ''We will notify regulators immediately.'', timestamp = 4\<rparr>"
      and fetch' = \<open>next_prompt_api (sdk_says ''Host: "The press is calling."'')\<close>
      and line = "''The press is calling.''", OF _ _ _ _ _ _ refl _ _ _ refl]
    host_call_fails host_call_succeeds answering_fields trim_response f
  show ?thesis
    by (simp add: one_doc_sim1 sim_doc_def team_entry_def opening_entry_def)
qed

text \<open>
  Claim C3 as stated says that the retry grows the transcript by exactly one. After the
  failed submit the stored transcript has 2 entries; submitting again at once changes
  nothing, and the retry that types the response again leaves 4 entries.
\<close>

theorem submit_retry_grows_by_two_counterexample:
  \<open>map_option length
     (stored_transcript
        (snd (run [SubmitTeamResponse 2 3 (next_prompt_api sdk_throws)]
                (answering, one_doc (sim_doc [opening_entry] None)))) ''sim1'') = Some 2
   \<and> map_option length
     (stored_transcript
        (snd (run [SubmitTeamResponse 2 3 (next_prompt_api sdk_throws),
                   Type ''We will notify regulators immediately.'',
                   SubmitTeamResponse 4 5 (next_prompt_api (sdk_says ''Host: "The press is calling."''))]
                (answering, one_doc (sim_doc [opening_entry] None)))) ''sim1'') = Some 4
   \<and> map_option length
     (stored_transcript
        (snd (run [SubmitTeamResponse 2 3 (next_prompt_api sdk_throws),
                   SubmitTeamResponse 4 5 (next_prompt_api (sdk_says ''Host: "The press is calling."''))]
                (answering, one_doc (sim_doc [opening_entry] None)))) ''sim1'') = Some 2\<close>
  by code_simp


section \<open>The stored transcript only grows\<close>

lemma analyze_keeps_transcripts:
  "stored_transcript (fst (snd (analyze_interview_POST JSON_parse fetch db docId))) j =
     stored_transcript db j"
  by (simp add: analyze_interview_POST_def updateDoc_def stored_transcript_def Let_def
      split: option.splits fetched.splits sum.splits)

lemma finish_keeps_transcripts:
  "stored_transcript (snd (handleFinishSimulation (st, db))) j = stored_transcript db j
   \<and> simulationDocId (fst (handleFinishSimulation (st, db))) = simulationDocId st
   \<and> transcript_state (fst (handleFinishSimulation (st, db))) = transcript_state st"
  by (simp add: handleFinishSimulation_def updateDoc_def stored_transcript_def caught_def Let_def
      split: option.splits)

lemma initializeInterview_result:
  assumes "w' = initializeInterview decodeScenario parseInt newId createdNow hostNow fetch es tp dp (st, db)"
  shows "(snd w' = db \<and> simulationDocId (fst w') = simulationDocId st
            \<and> transcript_state (fst w') = transcript_state st)
         \<or> (simulationDocId (fst w') = Some newId \<and> (\<forall>j. j \<noteq> newId \<longrightarrow> snd w' j = db j)
             \<and> (case stored_transcript (snd w') newId of
                   None \<Rightarrow> False
                 | Some t \<Rightarrow> prefix t (transcript_state (fst w'))))"
  unfolding assms
  by (simp add: initializeInterview_def updateDoc_def caught_def Let_def stored_transcript_def
      split: option.splits fetched.splits sum.splits)


lemma in_sync_alt:
  "in_sync w \<longleftrightarrow>
     (case simulationDocId (fst w) of
        None \<Rightarrow> True
      | Some k \<Rightarrow>
          (case stored_transcript (snd w) k of
             None \<Rightarrow> False
           | Some t \<Rightarrow> prefix t (transcript_state (fst w))))"
  by (simp add: in_sync_def stored_transcript_def split: option.splits)

lemma in_sync_initial_state: "in_sync (initial_state, db)"
  by (simp add: in_sync_def initial_state_def)

lemma stored_transcript_write:
  "stored_transcript (db(k \<mapsto> d\<lparr>transcript := Some new\<rparr>)) j =
     (if j = k then Some new else stored_transcript db j)"
  by (simp add: stored_transcript_def)

lemma submit_append_only:
  assumes sync: "in_sync (st, db)" and tr: "stored_transcript db i = Some tr"
  shows "in_sync (handleSubmitResponse teamNow hostNow fetch (st, db))
         \<and> (\<exists>tr'. stored_transcript (snd (handleSubmitResponse teamNow hostNow fetch (st, db))) i = Some tr'
               \<and> prefix tr tr')"
proof (cases "trim (userResponse st) = [] \<or> simulationDocId st = None")
  case True
  then have "handleSubmitResponse teamNow hostNow fetch (st, db) = (st, db)"
    by (rule handleSubmitResponse_idle)
  with sync tr show ?thesis by simp
next
  case False
  then obtain k where k: "simulationDocId st = Some k" and u: "trim (userResponse st) \<noteq> []"
    by auto
  from sync k obtain d t0 where d: "db k = Some d" and t0: "transcript d = Some t0"
    and p: "prefix t0 (transcript_state st)"
    by (auto simp: in_sync_def split: option.splits)
  define teamEntry where
    "teamEntry = \<lparr>role = team, content = JString (userResponse st), timestamp = teamNow\<rparr>"
  define r where
    "r = fetch (teamSize_state st) (domain_state st) (scenario_state st)
           (map (\<lambda>t. (role t, content t)) (transcript_state st @ [teamEntry]))"
  define w' where "w' = handleSubmitResponse teamNow hostNow fetch (st, db)"
  have "\<exists>new. prefix (transcript_state st) new
          \<and> snd w' = db(k \<mapsto> d\<lparr>transcript := Some new\<rparr>)
          \<and> transcript_state (fst w') = new \<and> simulationDocId (fst w') = Some k"
  proof (cases "accepted_host_line r")
    case None
    then have "accepted_host_line
           (fetch (teamSize_state st) (domain_state st) (scenario_state st)
              (map (\<lambda>t. (role t, content t)) (transcript_state st @ [teamEntry]))) = None"
      by (simp add: r_def)
    with k u d teamEntry_def
    have "snd (handleSubmitResponse teamNow hostNow fetch (st, db)) =
            db(k \<mapsto> d\<lparr>transcript := Some (transcript_state st @ [teamEntry])\<rparr>)
         \<and> transcript_state (fst (handleSubmitResponse teamNow hostNow fetch (st, db))) =
             transcript_state st @ [teamEntry]
         \<and> userResponse (fst (handleSubmitResponse teamNow hostNow fetch (st, db))) = []
         \<and> simulationDocId (fst (handleSubmitResponse teamNow hostNow fetch (st, db))) = Some k
         \<and> error (fst (handleSubmitResponse teamNow hostNow fetch (st, db))) \<noteq> None"
      by (rule handleSubmitResponse_failure)
    then show ?thesis
      unfolding w'_def by (intro exI [of _ "transcript_state st @ [teamEntry]"]) simp
  next
    case (Some line)
    define hostEntry where
      "hostEntry = \<lparr>role = host, content = JString line, timestamp = hostNow\<rparr>"
    from Some have "accepted_host_line
           (fetch (teamSize_state st) (domain_state st) (scenario_state st)
              (map (\<lambda>t. (role t, content t)) (transcript_state st @ [teamEntry]))) = Some line"
      by (simp add: r_def)
    with k u d teamEntry_def
    have "snd (handleSubmitResponse teamNow hostNow fetch (st, db)) =
            db(k \<mapsto> d\<lparr>transcript := Some (transcript_state st @ [teamEntry, hostEntry])\<rparr>)
         \<and> transcript_state (fst (handleSubmitResponse teamNow hostNow fetch (st, db))) =
             transcript_state st @ [teamEntry, hostEntry]
         \<and> userResponse (fst (handleSubmitResponse teamNow hostNow fetch (st, db))) = []
         \<and> simulationDocId (fst (handleSubmitResponse teamNow hostNow fetch (st, db))) = Some k
         \<and> error (fst (handleSubmitResponse teamNow hostNow fetch (st, db))) = None"
      using hostEntry_def by (rule handleSubmitResponse_success)
    then show ?thesis
      unfolding w'_def by (intro exI [of _ "transcript_state st @ [teamEntry, hostEntry]"]) simp
  qed
  then obtain new where n: "prefix (transcript_state st) new"
    and s: "snd w' = db(k \<mapsto> d\<lparr>transcript := Some new\<rparr>)"
    and l: "transcript_state (fst w') = new" and i: "simulationDocId (fst w') = Some k"
    by blast
  have 1: "in_sync w'"
    using s l i by (simp add: in_sync_alt stored_transcript_write)
  have 2: "\<exists>tr'. stored_transcript (snd w') i = Some tr' \<and> prefix tr tr'"
  proof (cases "i = k")
    case True
    with tr d t0 have "tr = t0" by (simp add: stored_transcript_def)
    with p n have "prefix tr new" by (meson prefix_order.order_trans)
    with True s show ?thesis by (simp add: stored_transcript_write)
  next
    case False
    with s tr show ?thesis by (simp add: stored_transcript_write)
  qed
  from 1 2 show ?thesis by (simp add: w'_def)
qed

lemma start_append_only:
  assumes sync: "in_sync (st, db)" and fresh: "db newId = None"
    and tr: "stored_transcript db i = Some tr"
  shows "in_sync (initializeInterview decodeScenario parseInt newId createdNow hostNow fetch es tp dp (st, db))
         \<and> stored_transcript
              (snd (initializeInterview decodeScenario parseInt newId createdNow hostNow fetch es tp dp (st, db))) i
             = Some tr"
proof -
  define w' where
    "w' = initializeInterview decodeScenario parseInt newId createdNow hostNow fetch es tp dp (st, db)"
  from initializeInterview_result [OF w'_def]
  consider
    (same) "snd w' = db" "simulationDocId (fst w') = simulationDocId st"
      "transcript_state (fst w') = transcript_state st"
  | (new) "simulationDocId (fst w') = Some newId" "\<forall>j. j \<noteq> newId \<longrightarrow> snd w' j = db j"
      "case stored_transcript (snd w') newId of None \<Rightarrow> False
       | Some t \<Rightarrow> prefix t (transcript_state (fst w'))"
    by blast
  then have "in_sync w' \<and> stored_transcript (snd w') i = Some tr"
  proof cases
    case same
    with sync tr show ?thesis by (simp add: in_sync_alt cong: option.case_cong)
  next
    case new
    from fresh tr have "i \<noteq> newId" by (auto simp: stored_transcript_def)
    with new(2) tr have "stored_transcript (snd w') i = Some tr"
      by (simp add: stored_transcript_def)
    moreover have "in_sync w'" using new(1) new(3) by (simp add: in_sync_alt)
    ultimately show ?thesis by simp
  qed
  then show ?thesis by (simp add: w'_def)
qed

lemma step_append_only:
  assumes "in_sync w" and "fresh x w" and "stored_transcript (snd w) i = Some tr"
  shows "in_sync (step x w)
         \<and> (\<exists>tr'. stored_transcript (snd (step x w)) i = Some tr' \<and> prefix tr tr')"
proof (cases x)
  case (Start decodeScenario parseInt newId createdNow hostNow fetch es tp dp)
  with assms start_append_only [of "fst w" "snd w" newId i tr decodeScenario parseInt createdNow hostNow fetch es tp dp]
  show ?thesis by simp
next
  case (Type v)
  with assms show ?thesis by (simp add: in_sync_alt cong: option.case_cong)
next
  case (SubmitTeamResponse teamNow hostNow fetch)
  with assms submit_append_only [of "fst w" "snd w" i tr teamNow hostNow fetch]
  show ?thesis by simp
next
  case Finish
  with assms finish_keeps_transcripts [of "fst w" "snd w"]
  show ?thesis by (simp add: in_sync_alt cong: option.case_cong)
next
  case (Analyze JSON_parse fetch docId)
  with assms show ?thesis by (simp add: in_sync_alt analyze_keeps_transcripts cong: option.case_cong)
qed

text \<open>
  Claim C4. Take any sequence of operations (start, typing, submit, finish, analysis
  request; successful or not) from a state in which page and store agree, where every
  start gets a fresh document id. Then page and store agree afterwards, and for every
  document the transcript stored before is an initial part of the transcript stored
  after: its length has not decreased and its earlier entries are as they were.
\<close>

theorem transcript_append_only:
  assumes "in_sync w" and "fresh_run ops w" and "stored_transcript (snd w) i = Some tr"
  shows "in_sync (run ops w)
         \<and> (\<exists>tr'. stored_transcript (snd (run ops w)) i = Some tr'
               \<and> prefix tr tr' \<and> length tr \<le> length tr' \<and> take (length tr) tr' = tr)"
  using assms
proof (induction ops arbitrary: w tr)
  case Nil
  then show ?case by simp
next
  case (Cons x xs)
  from Cons.prems have f: "fresh x w" and fr: "fresh_run xs (step x w)"
    by simp_all
  from step_append_only [OF Cons.prems(1) f Cons.prems(3)]
  obtain t1 where s: "in_sync (step x w)" and t1: "stored_transcript (snd (step x w)) i = Some t1"
    and p1: "prefix tr t1"
    by blast
  from Cons.IH [OF s fr t1]
  obtain tr' where r: "in_sync (run xs (step x w))"
    and t2: "stored_transcript (snd (run xs (step x w))) i = Some tr'" and p2: "prefix t1 tr'"
    by blast
  from p1 p2 have p: "prefix tr tr'" by (meson prefix_order.order_trans)
  then have "length tr \<le> length tr'" "take (length tr) tr' = tr"
    by (auto simp: prefix_def)
  with r t2 p show ?case by simp
qed

text \<open>
  The theorem at the run of the specification: start, a team response, the host's line,
  finish, analysis.
\<close>

theorem transcript_append_only_witness:
  \<open>stored_transcript
     (snd (run [Start (decodes_to breach) parseInt_digits ''sim1'' 0 1
                  (makeinterview_api JSON_parse_ecma
                     (gemini_says ''{"openingPrompt":"Your team has found a breach. What now?"}''))
                  (Some ''eyJ0aXRsZSI6'') (Some ''4'') (Some ''Healthcare'')]
             (initial_state, no_docs))) ''sim1''
    = Some [opening_entry]
   \<and> stored_transcript
     (snd (run [Type ''We will notify regulators immediately.'',
                SubmitTeamResponse 2 3 (next_prompt_api (sdk_says ''Host: "The press is calling."'')),
                Finish,
                Analyze JSON_parse_ecma (gemini_says ''{"overallScore":72}'') (Some ''sim1'')]
             (run [Start (decodes_to breach) parseInt_digits ''sim1'' 0 1
                     (makeinterview_api JSON_parse_ecma
                        (gemini_says ''{"openingPrompt":"Your team has found a breach. What now?"}''))
                     (Some ''eyJ0aXRsZSI6'') (Some ''4'') (Some ''Healthcare'')]
                (initial_state, no_docs)))) ''sim1''
    = Some [opening_entry, team_entry,
            \<lparr>role = host, content = JString ''The press is calling.'', timestamp = 3\<rparr>]
   \<and> prefix [opening_entry]
        [opening_entry, team_entry,
         \<lparr>role = host, content = JString ''The press is calling.'', timestamp = 3\<rparr>]\<close>
proof -
  define w1 where
    \<open>w1 = run [Start (decodes_to breach) parseInt_digits ''sim1'' 0 1
                  (makeinterview_api JSON_parse_ecma
                     (gemini_says ''{"openingPrompt":"Your team has found a breach. What now?"}''))
                  (Some ''eyJ0aXRsZSI6'') (Some ''4'') (Some ''Healthcare'')]
             (initial_state, no_docs)\<close>
  define ops where
    \<open>ops = [Type ''We will notify regulators immediately.'',
            SubmitTeamResponse 2 3 (next_prompt_api (sdk_says ''Host: "The press is calling."'')),
            Finish,
            Analyze JSON_parse_ecma (gemini_says ''{"overallScore":72}'') (Some ''sim1'')]\<close>
  have a: "in_sync w1"
    unfolding w1_def by code_simp
  have b: "fresh_run ops w1"
    unfolding w1_def ops_def by code_simp
  have c: "stored_transcript (snd w1) ''sim1'' = Some [opening_entry]"
    unfolding w1_def by code_simp
  have d: "stored_transcript (snd (run ops w1)) ''sim1''
    = Some [opening_entry, team_entry,
            \<lparr>role = host, content = JString ''The press is calling.'', timestamp = 3\<rparr>]"
    unfolding w1_def ops_def by code_simp
  from transcript_append_only [OF a b c] c d
  show ?thesis
    unfolding w1_def ops_def by simp
qed


end
